theory Spec2Isabelle
  imports Complex_Main "HOL-Library.Word" "HOL-Library.AList"
begin

section \<open>JavaScript values and strings\<close>

text \<open>
  A JavaScript string is a sequence of UTF-16 code units; \<open>slice\<close>, \<open>trim\<close> and a
  regular expression without the \<open>u\<close> flag all work on code units.
\<close>

type_synonym jschar = "16 word"
type_synonym jsstring = "jschar list"

definition js :: "string \<Rightarrow> jsstring" where
  "js s = map of_char s"

text \<open>
  The payload fields of a socket message are arbitrary JSON values.  Only \<open>typeof\<close> and
  truthiness of such a value are ever inspected by the server.
\<close>

datatype jsval = JUndefined | JNull | JBool bool | JNumber int | JString jsstring | JObject

fun falsy :: "jsval \<Rightarrow> bool" where
  "falsy JUndefined = True"
| "falsy JNull = True"
| "falsy (JBool b) = (\<not> b)"
| "falsy (JNumber n) = (n = 0)"
| "falsy (JString s) = (s = [])"
| "falsy JObject = False"

fun is_string :: "jsval \<Rightarrow> bool" where
  "is_string (JString s) = True"
| "is_string v = False"

section \<open>roomManager.js: sanitization\<close>

text \<open>The class \<open>\s\<close> of a JavaScript regular expression, which is also what \<open>trim\<close> strips.\<close>

definition is_whitespace :: "jschar \<Rightarrow> bool" where
  "is_whitespace c \<longleftrightarrow>
     c \<in> set [0x09, 0x0A, 0x0B, 0x0C, 0x0D, 0x20, 0xA0, 0x1680,
               0x2028, 0x2029, 0x202F, 0x205F, 0x3000, 0xFEFF]
     \<or> (0x2000 \<le> c \<and> c \<le> 0x200A)"

definition is_letter :: "jschar \<Rightarrow> bool" where
  "is_letter c \<longleftrightarrow> (0x61 \<le> c \<and> c \<le> 0x7A) \<or> (0x41 \<le> c \<and> c \<le> 0x5A)"

definition is_digit :: "jschar \<Rightarrow> bool" where
  "is_digit c \<longleftrightarrow> 0x30 \<le> c \<and> c \<le> 0x39"

text \<open>The complement of the character class \<open>[^a-zA-Z0-9\s\-\_\.]\<close>.\<close>

definition allowed_char :: "jschar \<Rightarrow> bool" where
  "allowed_char c \<longleftrightarrow>
     is_letter c \<or> is_digit c \<or> is_whitespace c \<or> c = 0x2D \<or> c = 0x5F \<or> c = 0x2E"

definition trim :: "jsstring \<Rightarrow> jsstring" where
  "trim s = rev (dropWhile is_whitespace (rev (dropWhile is_whitespace s)))"

text \<open>\<open>s.slice(0, n)\<close> for a non-negative \<open>n\<close>.\<close>

definition slice0 :: "nat \<Rightarrow> jsstring \<Rightarrow> jsstring" where
  "slice0 n s = take n s"

text \<open>\<open>s.replace(/[^a-zA-Z0-9\s\-\_\.]/g, '')\<close>.\<close>

definition strip_disallowed :: "jsstring \<Rightarrow> jsstring" where
  "strip_disallowed s = filter allowed_char s"

definition sanitizeUsername :: "jsval \<Rightarrow> jsstring" where
  "sanitizeUsername v =
     (if falsy v \<or> \<not> is_string v then js ''Anonymous''
      else (case v of
              JString s \<Rightarrow>
                (let r = strip_disallowed (slice0 50 (trim s))
                 in if r = [] then js ''Anonymous'' else r)
            | _ \<Rightarrow> js ''Anonymous''))"

definition sanitizeMessage :: "jsval \<Rightarrow> jsstring" where
  "sanitizeMessage v =
     (if falsy v \<or> \<not> is_string v then []
      else (case v of JString s \<Rightarrow> slice0 1000 (trim s) | _ \<Rightarrow> []))"

section \<open>roomManager.js: Participant, Room, RoomManager\<close>

text \<open>
  Socket ids, room ids, media tags and signalling payloads are opaque to the server: it
  compares them, uses them as keys and, for the stored room id, tests truthiness.  They
  are strings here; the empty string is the falsy one.
\<close>

type_synonym socket_id = string
type_synonym room_id = string
type_synonym peer_id = string
type_synonym payload = string

record Participant =
  socketId :: socket_id
  username :: jsstring
  peerId :: peer_id
  isMuted :: bool

text \<open>
  A JavaScript \<open>Map\<close> is an association list with distinct keys in insertion order:
  \<open>set\<close> is \<open>AList.update\<close> (in place for a known key, appended for a new one),
  \<open>delete\<close> is \<open>AList.delete\<close>, \<open>get\<close> is \<open>map_of\<close>.  The field \<open>createdAt\<close> of a
  room is written once and never read; it is left out.
\<close>

record Room =
  id_room :: room_id
  creator :: socket_id
  participants :: "(socket_id \<times> Participant) list"

definition new_Participant :: "socket_id \<Rightarrow> jsstring \<Rightarrow> peer_id \<Rightarrow> Participant" where
  "new_Participant sid uname pid =
     \<lparr>socketId = sid, username = uname, peerId = pid, isMuted = False\<rparr>"

definition new_Room :: "room_id \<Rightarrow> socket_id \<Rightarrow> Room" where
  "new_Room rid creatorSocketId = \<lparr>id_room = rid, creator = creatorSocketId, participants = []\<rparr>"

definition addParticipant :: "Room \<Rightarrow> socket_id \<Rightarrow> jsstring \<Rightarrow> peer_id \<Rightarrow> Room" where
  "addParticipant room sid uname pid =
     room\<lparr>participants := AList.update sid (new_Participant sid uname pid) (participants room)\<rparr>"

definition removeParticipant :: "Room \<Rightarrow> socket_id \<Rightarrow> Room" where
  "removeParticipant room sid = room\<lparr>participants := AList.delete sid (participants room)\<rparr>"

definition getParticipant :: "Room \<Rightarrow> socket_id \<Rightarrow> Participant option" where
  "getParticipant room sid = map_of (participants room) sid"

definition isCreator :: "Room \<Rightarrow> socket_id \<Rightarrow> bool" where
  "isCreator room sid \<longleftrightarrow> creator room = sid"

definition getParticipantsList :: "Room \<Rightarrow> Participant list" where
  "getParticipantsList room = map snd (participants room)"

definition isEmpty :: "Room \<Rightarrow> bool" where
  "isEmpty room \<longleftrightarrow> length (participants room) = 0"

type_synonym registry = "(room_id \<times> Room) list"

definition getRoom :: "registry \<Rightarrow> room_id \<Rightarrow> Room option" where
  "getRoom rms rid = map_of rms rid"

text \<open>Returns the registry after the call together with the room the call returns.\<close>

definition getOrCreateRoom :: "registry \<Rightarrow> room_id \<Rightarrow> socket_id \<Rightarrow> registry \<times> Room" where
  "getOrCreateRoom rms rid creatorSocketId =
     (case map_of rms rid of
        Some room \<Rightarrow> (rms, room)
      | None \<Rightarrow> (let room = new_Room rid creatorSocketId in (AList.update rid room rms, room)))"

definition removeRoom :: "registry \<Rightarrow> room_id \<Rightarrow> registry" where
  "removeRoom rms rid = AList.delete rid rms"

text \<open>
  A room object is shared by reference between the registry and a handler's local
  variable; a handler that has mutated its room stores it back under its key.
\<close>

definition store_room :: "registry \<Rightarrow> room_id \<Rightarrow> Room \<Rightarrow> registry" where
  "store_room rms rid room = AList.update rid room rms"

section \<open>index.js: the signaling relay\<close>

text \<open>
  One session per live connection: the two closure variables of the connection handler
  and the set of socket.io broadcast groups the socket is in (a socket starts in the
  group named by its own id).
\<close>

record Session =
  currentRoomId :: "room_id option"
  currentUsername :: "jsstring option"
  sio_rooms :: "string list"

record ServerState =
  rooms :: registry
  sockets :: "(socket_id \<times> Session) list"

definition init_state :: ServerState where
  "init_state = \<lparr>rooms = [], sockets = []\<rparr>"

datatype ClientEvent =
    Connect
  | JoinRoom room_id jsval peer_id
  | WebrtcOffer string payload
  | WebrtcAnswer string payload
  | IceCandidate string payload
  | SendMessage jsval nat
  | ToggleMute bool
  | KickUser socket_id
  | Disconnect

datatype ServerMsg =
    RoomJoined "Participant list" bool
  | UserJoined socket_id jsstring peer_id
  | OfferMsg socket_id payload
  | AnswerMsg socket_id payload
  | IceCandidateMsg socket_id payload
  | ReceiveMessage "jsstring option" jsstring nat socket_id
  | UserMuted socket_id bool
  | YouWereKicked
  | UserKicked socket_id
  | UserLeft socket_id
  | ErrorMsg string

type_synonym emissions = "(socket_id \<times> ServerMsg) list"

text \<open>The live sockets in a broadcast group, in connection order.\<close>

definition in_group :: "ServerState \<Rightarrow> string \<Rightarrow> socket_id list" where
  "in_group st g = map fst (filter (\<lambda>p. g \<in> set (sio_rooms (snd p))) (sockets st))"

text \<open>\<open>socket.emit\<close>, \<open>socket.to(g).emit\<close> (everyone in the group but the sender) and
  \<open>io.to(g).emit\<close> (everyone in the group).\<close>

definition socket_emit :: "socket_id \<Rightarrow> ServerMsg \<Rightarrow> emissions" where
  "socket_emit sid m = [(sid, m)]"

definition socket_to :: "ServerState \<Rightarrow> socket_id \<Rightarrow> string \<Rightarrow> ServerMsg \<Rightarrow> emissions" where
  "socket_to st sid g m = map (\<lambda>t. (t, m)) (filter (\<lambda>t. t \<noteq> sid) (in_group st g))"

definition io_to :: "ServerState \<Rightarrow> string \<Rightarrow> ServerMsg \<Rightarrow> emissions" where
  "io_to st g m = map (\<lambda>t. (t, m)) (in_group st g)"

definition sio_join :: "string \<Rightarrow> string list \<Rightarrow> string list" where
  "sio_join g gs = (if g \<in> set gs then gs else gs @ [g])"

definition sio_leave :: "string \<Rightarrow> string list \<Rightarrow> string list" where
  "sio_leave g gs = removeAll g gs"

text \<open>JavaScript truthiness of the closure variable \<open>currentRoomId\<close>: \<open>null\<close> and the
  empty string are both falsy.\<close>

fun truthy_room :: "room_id option \<Rightarrow> bool" where
  "truthy_room None = False"
| "truthy_room (Some r) = (r \<noteq> [])"

definition new_Session :: "socket_id \<Rightarrow> Session" where
  "new_Session sid = \<lparr>currentRoomId = None, currentUsername = None, sio_rooms = [sid]\<rparr>"

text \<open>
  The handlers.  Each takes the state, the id of the socket the event arrived on and that
  socket's session, and returns the new state with the messages emitted.  Nothing in the
  body of the join handler can throw, so its \<open>catch\<close> branch has no counterpart.
\<close>

definition on_join_room ::
  "ServerState \<Rightarrow> socket_id \<Rightarrow> Session \<Rightarrow> room_id \<Rightarrow> jsval \<Rightarrow> peer_id \<Rightarrow> ServerState \<times> emissions" where
  "on_join_room st sid sess roomId uname pid =
     (let sanitizedUsername = sanitizeUsername uname;
          (rms1, room0) = getOrCreateRoom (rooms st) roomId sid;
          room = addParticipant room0 sid sanitizedUsername pid;
          sess' = sess\<lparr>currentRoomId := Some roomId,
                       currentUsername := Some sanitizedUsername,
                       sio_rooms := sio_join roomId (sio_rooms sess)\<rparr>;
          st' = \<lparr>rooms = store_room rms1 roomId room,
                 sockets = AList.update sid sess' (sockets st)\<rparr>;
          otherParticipants = filter (\<lambda>p. socketId p \<noteq> sid) (getParticipantsList room)
      in (st', socket_emit sid (RoomJoined otherParticipants (isCreator room sid))
               @ socket_to st' sid roomId (UserJoined sid sanitizedUsername pid)))"

definition on_webrtc_offer ::
  "ServerState \<Rightarrow> socket_id \<Rightarrow> Session \<Rightarrow> string \<Rightarrow> payload \<Rightarrow> ServerState \<times> emissions" where
  "on_webrtc_offer st sid sess to offer = (st, socket_to st sid to (OfferMsg sid offer))"

definition on_webrtc_answer ::
  "ServerState \<Rightarrow> socket_id \<Rightarrow> Session \<Rightarrow> string \<Rightarrow> payload \<Rightarrow> ServerState \<times> emissions" where
  "on_webrtc_answer st sid sess to answer = (st, socket_to st sid to (AnswerMsg sid answer))"

definition on_ice_candidate ::
  "ServerState \<Rightarrow> socket_id \<Rightarrow> Session \<Rightarrow> string \<Rightarrow> payload \<Rightarrow> ServerState \<times> emissions" where
  "on_ice_candidate st sid sess to candidate =
     (st, socket_to st sid to (IceCandidateMsg sid candidate))"

definition on_send_message ::
  "ServerState \<Rightarrow> socket_id \<Rightarrow> Session \<Rightarrow> jsval \<Rightarrow> nat \<Rightarrow> ServerState \<times> emissions" where
  "on_send_message st sid sess message now =
     (if \<not> truthy_room (currentRoomId sess) then (st, [])
      else (case currentRoomId sess of
              None \<Rightarrow> (st, [])
            | Some rid \<Rightarrow>
                (let sanitizedMessage = sanitizeMessage message
                 in if sanitizedMessage = [] then (st, [])
                    else (st, io_to st rid
                                (ReceiveMessage (currentUsername sess) sanitizedMessage now sid)))))"

definition on_toggle_mute ::
  "ServerState \<Rightarrow> socket_id \<Rightarrow> Session \<Rightarrow> bool \<Rightarrow> ServerState \<times> emissions" where
  "on_toggle_mute st sid sess flag =
     (if \<not> truthy_room (currentRoomId sess) then (st, [])
      else (case currentRoomId sess of
              None \<Rightarrow> (st, [])
            | Some rid \<Rightarrow>
                (case getRoom (rooms st) rid of
                   None \<Rightarrow> (st, [])
                 | Some room \<Rightarrow>
                     (case getParticipant room sid of
                        None \<Rightarrow> (st, [])
                      | Some participant \<Rightarrow>
                          (let room' = room\<lparr>participants :=
                                  AList.update sid (participant\<lparr>isMuted := flag\<rparr>)
                                    (participants room)\<rparr>
                           in (st\<lparr>rooms := store_room (rooms st) rid room'\<rparr>,
                               socket_to st sid rid (UserMuted sid flag)))))))"

definition on_kick_user ::
  "ServerState \<Rightarrow> socket_id \<Rightarrow> Session \<Rightarrow> socket_id \<Rightarrow> ServerState \<times> emissions" where
  "on_kick_user st sid sess targetSocketId =
     (if \<not> truthy_room (currentRoomId sess) then (st, [])
      else (case currentRoomId sess of
              None \<Rightarrow> (st, [])
            | Some rid \<Rightarrow>
                (case getRoom (rooms st) rid of
                   None \<Rightarrow> (st, [])
                 | Some room \<Rightarrow>
                     if \<not> isCreator room sid
                     then (st, socket_emit sid (ErrorMsg ''Only the room creator can kick users''))
                     else if targetSocketId = sid
                     then (st, socket_emit sid (ErrorMsg ''Cannot kick yourself''))
                     else
                       (let st1 = st\<lparr>rooms := store_room (rooms st) rid
                                                 (removeParticipant room targetSocketId)\<rparr>;
                            out = io_to st1 targetSocketId YouWereKicked
                                  @ socket_to st1 sid rid (UserKicked targetSocketId);
                            st2 = (case map_of (sockets st1) targetSocketId of
                                     None \<Rightarrow> st1
                                   | Some kicked \<Rightarrow>
                                       st1\<lparr>sockets := AList.update targetSocketId
                                              (kicked\<lparr>sio_rooms := sio_leave rid (sio_rooms kicked)\<rparr>)
                                              (sockets st1)\<rparr>)
                        in (st2, out)))))"

text \<open>
  By the time the \<open>disconnect\<close> handler runs, socket.io has taken the socket out of
  every broadcast group and out of \<open>io.sockets.sockets\<close>.
\<close>

definition on_disconnect ::
  "ServerState \<Rightarrow> socket_id \<Rightarrow> Session \<Rightarrow> ServerState \<times> emissions" where
  "on_disconnect st sid sess =
     (let st0 = st\<lparr>sockets := AList.delete sid (sockets st)\<rparr>
      in if truthy_room (currentRoomId sess)
         then (case currentRoomId sess of
                 None \<Rightarrow> (st0, [])
               | Some rid \<Rightarrow>
                   (case getRoom (rooms st0) rid of
                      None \<Rightarrow> (st0, [])
                    | Some room0 \<Rightarrow>
                        (let room = removeParticipant room0 sid;
                             st1 = st0\<lparr>rooms := store_room (rooms st0) rid room\<rparr>;
                             out = socket_to st1 sid rid (UserLeft sid)
                         in if isEmpty room
                            then (st1\<lparr>rooms := removeRoom (rooms st1) rid\<rparr>, out)
                            else (st1, out))))
         else (st0, []))"

text \<open>
  Dispatch.  A connection gets a session when it connects (socket ids are unique among
  live connections); events on a socket that is not live reach no handler.
\<close>

definition step :: "ServerState \<Rightarrow> socket_id \<times> ClientEvent \<Rightarrow> ServerState \<times> emissions" where
  "step st e =
     (case e of (sid, ev) \<Rightarrow>
       (case map_of (sockets st) sid of
          None \<Rightarrow>
            (case ev of
               Connect \<Rightarrow> (st\<lparr>sockets := AList.update sid (new_Session sid) (sockets st)\<rparr>, [])
             | _ \<Rightarrow> (st, []))
        | Some sess \<Rightarrow>
            (case ev of
               Connect \<Rightarrow> (st, [])
             | JoinRoom roomId uname pid \<Rightarrow> on_join_room st sid sess roomId uname pid
             | WebrtcOffer to offer \<Rightarrow> on_webrtc_offer st sid sess to offer
             | WebrtcAnswer to answer \<Rightarrow> on_webrtc_answer st sid sess to answer
             | IceCandidate to candidate \<Rightarrow> on_ice_candidate st sid sess to candidate
             | SendMessage message now \<Rightarrow> on_send_message st sid sess message now
             | ToggleMute flag \<Rightarrow> on_toggle_mute st sid sess flag
             | KickUser targetSocketId \<Rightarrow> on_kick_user st sid sess targetSocketId
             | Disconnect \<Rightarrow> on_disconnect st sid sess)))"

definition run_state :: "ServerState \<Rightarrow> (socket_id \<times> ClientEvent) list \<Rightarrow> ServerState" where
  "run_state st evs = foldl (\<lambda>s e. fst (step s e)) st evs"

section \<open>socket.js: WebRTCManager, peer links\<close>

text \<open>
  SimplePeer is a library.  A peer instance is represented by what the manager does to
  it: the role it was created with and the data handed to \<open>peer.signal\<close>, in order.
\<close>

datatype Signal = OfferSignal payload | AnswerSignal payload | CandidateSignal payload

record SimplePeer =
  initiator :: bool
  signalled :: "Signal list"

text \<open>
  The manager's map of peers, the audio elements of the document that carry the id of a
  remote socket (in document order; \<open>getElementById\<close> finds the first), and whether the
  callbacks \<open>peerDisconnected\<close> and \<open>speaking\<close> are set.
\<close>

record WebRTCManager =
  peers :: "(socket_id \<times> SimplePeer) list"
  audio_elements :: "socket_id list"
  cb_peerDisconnected :: bool
  cb_speaking :: bool

datatype ClientEffect =
    PeerDestroy socket_id
  | AudioRemove socket_id
  | PeerDisconnectedCallback socket_id
  | SpeakingCallback string bool

definition createPeerConnection ::
  "WebRTCManager \<Rightarrow> socket_id \<Rightarrow> bool \<Rightarrow> WebRTCManager \<times> SimplePeer option" where
  "createPeerConnection m remoteSocketId isInitiator =
     (if map_of (peers m) remoteSocketId \<noteq> None then (m, None)
      else (let peer = \<lparr>initiator = isInitiator, signalled = []\<rparr>
            in (m\<lparr>peers := AList.update remoteSocketId peer (peers m)\<rparr>, Some peer)))"

text \<open>\<open>peer.signal(data)\<close> on the peer stored under \<open>sid\<close>.\<close>

definition peer_signal :: "WebRTCManager \<Rightarrow> socket_id \<Rightarrow> SimplePeer \<Rightarrow> Signal \<Rightarrow> WebRTCManager" where
  "peer_signal m sid peer d =
     m\<lparr>peers := AList.update sid (peer\<lparr>signalled := signalled peer @ [d]\<rparr>) (peers m)\<rparr>"

definition handleOffer :: "WebRTCManager \<Rightarrow> socket_id \<Rightarrow> payload \<Rightarrow> WebRTCManager" where
  "handleOffer m fromSocketId offer =
     (case createPeerConnection m fromSocketId False of
        (m', None) \<Rightarrow> m'
      | (m', Some peer) \<Rightarrow> peer_signal m' fromSocketId peer (OfferSignal offer))"

definition handleAnswer :: "WebRTCManager \<Rightarrow> socket_id \<Rightarrow> payload \<Rightarrow> WebRTCManager" where
  "handleAnswer m fromSocketId answer =
     (case map_of (peers m) fromSocketId of
        None \<Rightarrow> m
      | Some peer \<Rightarrow> peer_signal m fromSocketId peer (AnswerSignal answer))"

definition handleICECandidate :: "WebRTCManager \<Rightarrow> socket_id \<Rightarrow> payload \<Rightarrow> WebRTCManager" where
  "handleICECandidate m fromSocketId candidate =
     (case map_of (peers m) fromSocketId of
        None \<Rightarrow> m
      | Some peer \<Rightarrow> peer_signal m fromSocketId peer (CandidateSignal candidate))"

definition removePeer :: "WebRTCManager \<Rightarrow> socket_id \<Rightarrow> WebRTCManager \<times> ClientEffect list" where
  "removePeer m sid =
     (let (m1, e1) = (case map_of (peers m) sid of
                        Some peer \<Rightarrow> (m\<lparr>peers := AList.delete sid (peers m)\<rparr>, [PeerDestroy sid])
                      | None \<Rightarrow> (m, []));
          (m2, e2) = (if sid \<in> set (audio_elements m1)
                      then (m1\<lparr>audio_elements := remove1 sid (audio_elements m1)\<rparr>,
                            [AudioRemove sid])
                      else (m1, []));
          e3 = (if cb_peerDisconnected m2 then [PeerDisconnectedCallback sid] else [])
      in (m2, e1 @ e2 @ e3))"

section \<open>socket.js: voice activity detection\<close>

text \<open>
  One tick of a sampling loop.  Its input is the window of unsigned bytes that
  \<open>analyser.getByteTimeDomainData\<close> has written (\<open>fftSize\<close>, that is 2048, of them).
  The volume is the root mean square of the window, scaled to 0..255; JavaScript numbers
  are read as reals.
\<close>

definition rms_volume :: "8 word list \<Rightarrow> real" where
  "rms_volume dataArray =
     sqrt (foldl (\<lambda>acc x. acc + ((real (unat x) - 128) / 128) * ((real (unat x) - 128) / 128))
                 0 dataArray
           / real (length dataArray)) * 255"

definition push_history :: "nat \<Rightarrow> real list \<Rightarrow> real \<Rightarrow> real list" where
  "push_history historyLength h v =
     (let h1 = h @ [v] in if length h1 > historyLength then tl h1 else h1)"

definition speech_threshold :: "real list \<Rightarrow> real" where
  "speech_threshold h = max 5 ((foldl (+) 0 h / real (length h)) * 1.5)"

record SpeakingDetector =
  isSpeaking :: bool
  volumeHistory :: "real list"

definition new_SpeakingDetector :: SpeakingDetector where
  "new_SpeakingDetector = \<lparr>isSpeaking = False, volumeHistory = []\<rparr>"

text \<open>\<open>checkAudioLevel\<close> of \<open>detectSpeaking(socketId, stream)\<close>; the first argument is
  the manager, for its \<open>speaking\<close> callback.\<close>

definition checkAudioLevel ::
  "WebRTCManager \<Rightarrow> socket_id \<Rightarrow> SpeakingDetector \<Rightarrow> 8 word list
     \<Rightarrow> SpeakingDetector \<times> ClientEffect list" where
  "checkAudioLevel m sid d dataArray =
     (let volume = rms_volume dataArray;
          h = push_history 50 (volumeHistory d) volume;
          threshold = speech_threshold h;
          newIsSpeaking = (volume > threshold);
          d1 = d\<lparr>volumeHistory := h\<rparr>
      in if newIsSpeaking \<noteq> isSpeaking d
         then (d1\<lparr>isSpeaking := newIsSpeaking\<rparr>,
               if cb_speaking m then [SpeakingCallback sid newIsSpeaking] else [])
         else (d1, []))"

record LocalMonitor =
  isLocalSpeaking :: bool
  maxVolume :: real
  minVolume :: real
  localVolumeHistory :: "real list"

definition new_LocalMonitor :: LocalMonitor where
  "new_LocalMonitor =
     \<lparr>isLocalSpeaking = False, maxVolume = 0, minVolume = 255, localVolumeHistory = []\<rparr>"

text \<open>
  \<open>checkLocalAudioLevel\<close> of \<open>monitorLocalAudio\<close>.  \<open>hasLocalStream\<close> and \<open>muted\<close> are
  the manager's \<open>localStream\<close> (set or \<open>null\<close>) and \<open>isMuted\<close> at the tick.  The level
  bar and the status icons it repaints on every tick are display only and left out.
\<close>

definition checkLocalAudioLevel ::
  "WebRTCManager \<Rightarrow> bool \<Rightarrow> bool \<Rightarrow> LocalMonitor \<Rightarrow> 8 word list
     \<Rightarrow> LocalMonitor \<times> ClientEffect list" where
  "checkLocalAudioLevel m hasLocalStream muted d dataArray =
     (if \<not> hasLocalStream then (d, [])
      else
       (let volume = rms_volume dataArray;
            h = push_history 100 (localVolumeHistory d) volume;
            mx = (if volume > maxVolume d then volume else maxVolume d * 0.999);
            mn = (if volume < minVolume d \<and> volume > 0 then volume else minVolume d);
            threshold = speech_threshold h;
            newIsLocalSpeaking = (volume > threshold \<and> \<not> muted);
            d1 = d\<lparr>maxVolume := mx, minVolume := mn, localVolumeHistory := h\<rparr>
        in if newIsLocalSpeaking \<noteq> isLocalSpeaking d
           then (d1\<lparr>isLocalSpeaking := newIsLocalSpeaking\<rparr>,
                 if cb_speaking m then [SpeakingCallback ''local'' newIsLocalSpeaking] else [])
           else (d1, [])))"

section \<open>Derived notions used in the statements\<close>

text \<open>
  The invariant of the registry: a registered room has a participant, and a live session
  whose current room is a room it created is among that room's participants.
\<close>

definition rooms_inv :: "ServerState \<Rightarrow> bool" where
  "rooms_inv st \<longleftrightarrow>
     (\<forall>rid room. map_of (rooms st) rid = Some room \<longrightarrow>
        participants room \<noteq> [] \<and>
        (\<forall>sess. map_of (sockets st) (creator room) = Some sess \<and> currentRoomId sess = Some rid
           \<longrightarrow> map_of (participants room) (creator room) \<noteq> None))"

fun is_join :: "ClientEvent \<Rightarrow> bool" where
  "is_join (JoinRoom r u p) = True"
| "is_join ev = False"

text \<open>
  The room \<open>rid\<close> is in the registry in every state of the run of \<open>evs\<close> from \<open>st\<close>.
\<close>

fun persists :: "room_id \<Rightarrow> ServerState \<Rightarrow> (socket_id \<times> ClientEvent) list \<Rightarrow> bool" where
  "persists rid st [] = (map_of (rooms st) rid \<noteq> None)"
| "persists rid st (e # es) = (map_of (rooms st) rid \<noteq> None \<and> persists rid (fst (step st e)) es)"

text \<open>
  The \<open>isCreator\<close> flags of the join confirmations sent to \<open>sid\<close>, in order.
\<close>

fun isCreator_reports :: "socket_id \<Rightarrow> emissions \<Rightarrow> bool list" where
  "isCreator_reports sid [] = []"
| "isCreator_reports sid ((t, RoomJoined ps b) # out) =
     (if t = sid then b # isCreator_reports sid out else isCreator_reports sid out)"
| "isCreator_reports sid (m # out) = isCreator_reports sid out"

section \<open>Scenarios\<close>

text \<open>Two connections that have not joined; A alone in room R, which it created; then B in R
  as well; and the run in which A then kicks B and B disconnects.\<close>

definition st_conn :: ServerState where
  "st_conn = run_state init_state [(''A'', Connect), (''B'', Connect)]"

definition st_A :: ServerState where
  "st_A = run_state init_state
     [(''A'', Connect), (''A'', JoinRoom ''R'' (JString (js ''al'')) ''p1'')]"

definition st_AB :: ServerState where
  "st_AB = run_state st_A [(''B'', Connect), (''B'', JoinRoom ''R'' JNull ''p2'')]"

definition evs1 :: "(socket_id \<times> ClientEvent) list" where
  "evs1 = [(''A'', Connect), (''A'', JoinRoom ''R'' (JString (js ''al'')) ''p1''),
           (''B'', Connect), (''B'', JoinRoom ''R'' JNull ''p2''),
           (''A'', KickUser ''B''), (''B'', Disconnect)]"

text \<open>
  A manager with both callbacks set: without peers, and with one link to B and its audio element.
\<close>

definition mgr0 :: WebRTCManager where
  "mgr0 = \<lparr>peers = [], audio_elements = [], cb_peerDisconnected = True, cb_speaking = True\<rparr>"

definition mgr1 :: WebRTCManager where
  "mgr1 = \<lparr>peers = [(''B'', \<lparr>initiator = True, signalled = []\<rparr>)], audio_elements = [''B''],
           cb_peerDisconnected = True, cb_speaking = True\<rparr>"

section \<open>Properties of sanitization\<close>

lemma js_Anonymous: "js ''Anonymous'' = [65, 110, 111, 110, 121, 109, 111, 117, 115]"
  by (simp add: js_def)

lemma allowed_Anonymous: "c \<in> set (js ''Anonymous'') \<Longrightarrow> is_letter c"
  by (auto simp: js_Anonymous is_letter_def)

lemma sanitizeUsername_cases:
  "sanitizeUsername v = js ''Anonymous'' \<or>
   (\<exists>s. v = JString s \<and> sanitizeUsername v = strip_disallowed (slice0 50 (trim s)))"
  by (cases v) (simp_all add: sanitizeUsername_def Let_def)

lemma length_strip_slice: "length (strip_disallowed (slice0 50 s)) \<le> 50"
proof -
  have "length (filter allowed_char (take 50 s)) \<le> length (take 50 s)"
    by (rule length_filter_le)
  then show ?thesis by (simp add: strip_disallowed_def slice0_def)
qed

text \<open>
  C5.  For every input value \<open>sanitizeUsername\<close> returns a string of at most 50 code
  units, every one of which is a letter, a digit, whitespace, a hyphen, an underscore or
  a period; an input that is not a string (an absent one included), and a string that is
  empty after sanitization, give exactly \<open>Anonymous\<close>.  The function is total: no branch
  of it raises.
\<close>

theorem sanitizeUsername_spec:
  "length (sanitizeUsername v) \<le> 50
   \<and> (\<forall>c \<in> set (sanitizeUsername v).
        is_letter c \<or> is_digit c \<or> is_whitespace c \<or> c = 0x2D \<or> c = 0x5F \<or> c = 0x2E)
   \<and> (\<not> is_string v \<longrightarrow> sanitizeUsername v = js ''Anonymous'')
   \<and> (v = JUndefined \<longrightarrow> sanitizeUsername v = js ''Anonymous'')
   \<and> (\<forall>s. v = JString s \<and> strip_disallowed (slice0 50 (trim s)) = []
         \<longrightarrow> sanitizeUsername v = js ''Anonymous'')"
proof (intro conjI)
  show "length (sanitizeUsername v) \<le> 50"
    using sanitizeUsername_cases [of v] length_strip_slice
    by (auto simp: js_Anonymous)
next
  show "\<forall>c \<in> set (sanitizeUsername v).
          is_letter c \<or> is_digit c \<or> is_whitespace c \<or> c = 0x2D \<or> c = 0x5F \<or> c = 0x2E"
  proof
    fix c assume c: "c \<in> set (sanitizeUsername v)"
    from sanitizeUsername_cases [of v] show
      "is_letter c \<or> is_digit c \<or> is_whitespace c \<or> c = 0x2D \<or> c = 0x5F \<or> c = 0x2E"
    proof
      assume "sanitizeUsername v = js ''Anonymous''"
      with c show ?thesis using allowed_Anonymous by simp
    next
      assume "\<exists>s. v = JString s \<and> sanitizeUsername v = strip_disallowed (slice0 50 (trim s))"
      with c have "allowed_char c" by (auto simp: strip_disallowed_def)
      then show ?thesis by (simp add: allowed_char_def)
    qed
  qed
next
  show "\<not> is_string v \<longrightarrow> sanitizeUsername v = js ''Anonymous''"
    by (simp add: sanitizeUsername_def)
next
  show "v = JUndefined \<longrightarrow> sanitizeUsername v = js ''Anonymous''"
    by (simp add: sanitizeUsername_def)
next
  show "\<forall>s. v = JString s \<and> strip_disallowed (slice0 50 (trim s)) = []
          \<longrightarrow> sanitizeUsername v = js ''Anonymous''"
    by (simp add: sanitizeUsername_def Let_def)
qed

theorem sanitizeUsername_spec_witness:
  "sanitizeUsername (JString (js '' a<b>_1. '')) = js ''ab_1.''
   \<and> length (sanitizeUsername (JString (js '' a<b>_1. ''))) \<le> 50
   \<and> is_letter 0x61
   \<and> sanitizeUsername (JNumber 7) = js ''Anonymous''
   \<and> sanitizeUsername JUndefined = js ''Anonymous''
   \<and> sanitizeUsername (JString (js '' <> '')) = js ''Anonymous''"
proof -
  let ?v = "JString (js '' a<b>_1. '')"
  have r: "sanitizeUsername ?v = js ''ab_1.''"
    by (simp add: sanitizeUsername_def js_def trim_def slice0_def strip_disallowed_def
        allowed_char_def is_letter_def is_digit_def is_whitespace_def)
  have e: "strip_disallowed (slice0 50 (trim (js '' <> ''))) = []"
    by (simp add: js_def trim_def slice0_def strip_disallowed_def
        allowed_char_def is_letter_def is_digit_def is_whitespace_def)
  have m: "(0x61 :: jschar) \<in> set (sanitizeUsername ?v)"
    unfolding r by (simp add: js_def)
  have "is_letter (0x61 :: jschar) \<or> is_digit (0x61 :: jschar) \<or> is_whitespace (0x61 :: jschar)
        \<or> (0x61 :: jschar) = 0x2D \<or> (0x61 :: jschar) = 0x5F \<or> (0x61 :: jschar) = 0x2E"
    using sanitizeUsername_spec [of ?v] m by blast
  then have l: "is_letter (0x61 :: jschar)"
    by (simp add: is_digit_def is_whitespace_def)
  have n: "sanitizeUsername (JNumber 7) = js ''Anonymous''"
    using sanitizeUsername_spec [of "JNumber 7"] by simp
  have u: "sanitizeUsername JUndefined = js ''Anonymous''"
    using sanitizeUsername_spec [of JUndefined] by simp
  have a: "sanitizeUsername (JString (js '' <> '')) = js ''Anonymous''"
    using sanitizeUsername_spec [of "JString (js '' <> '')"] e by blast
  have len: "length (sanitizeUsername ?v) \<le> 50"
    using sanitizeUsername_spec [of ?v] by blast
  show ?thesis using r len l n u a by blast
qed

section \<open>Evaluation of the scenarios\<close>

lemmas handler_defs = step_def on_join_room_def on_kick_user_def on_disconnect_def
  on_toggle_mute_def on_send_message_def on_webrtc_offer_def on_webrtc_answer_def
  on_ice_candidate_def getOrCreateRoom_def getRoom_def store_room_def removeRoom_def
  addParticipant_def removeParticipant_def getParticipant_def isCreator_def isEmpty_def
  getParticipantsList_def new_Room_def new_Participant_def new_Session_def
  socket_emit_def socket_to_def io_to_def in_group_def sio_join_def sio_leave_def
  init_state_def run_state_def Let_def

lemmas sanitize_defs = sanitizeUsername_def sanitizeMessage_def js_def trim_def slice0_def
  strip_disallowed_def allowed_char_def is_letter_def is_digit_def is_whitespace_def

lemma st_conn_eval:
  "st_conn = \<lparr>rooms = [],
     sockets = [(''A'', \<lparr>currentRoomId = None, currentUsername = None, sio_rooms = [''A'']\<rparr>),
                (''B'', \<lparr>currentRoomId = None, currentUsername = None, sio_rooms = [''B'']\<rparr>)]\<rparr>"
  by (simp add: st_conn_def handler_defs)

lemma st_A_eval:
  "st_A = \<lparr>rooms = [(''R'', \<lparr>id_room = ''R'', creator = ''A'', participants =
       [(''A'', \<lparr>socketId = ''A'', username = [97, 108], peerId = ''p1'', isMuted = False\<rparr>)]\<rparr>)],
     sockets = [(''A'', \<lparr>currentRoomId = Some ''R'', currentUsername = Some [97, 108],
                          sio_rooms = [''A'', ''R'']\<rparr>)]\<rparr>"
  by (simp add: st_A_def handler_defs sanitize_defs)

lemma st_AB_eval:
  "st_AB = \<lparr>rooms = [(''R'', \<lparr>id_room = ''R'', creator = ''A'', participants =
       [(''A'', \<lparr>socketId = ''A'', username = [97, 108], peerId = ''p1'', isMuted = False\<rparr>),
        (''B'', \<lparr>socketId = ''B'', username = [65, 110, 111, 110, 121, 109, 111, 117, 115],
                  peerId = ''p2'', isMuted = False\<rparr>)]\<rparr>)],
     sockets = [(''A'', \<lparr>currentRoomId = Some ''R'', currentUsername = Some [97, 108],
                          sio_rooms = [''A'', ''R'']\<rparr>),
                (''B'', \<lparr>currentRoomId = Some ''R'',
                          currentUsername = Some [65, 110, 111, 110, 121, 109, 111, 117, 115],
                          sio_rooms = [''B'', ''R'']\<rparr>)]\<rparr>"
  unfolding st_AB_def st_A_eval by (simp add: handler_defs sanitize_defs)

lemma evs1_eval: "run_state init_state evs1 =
  \<lparr>rooms = [(''R'', \<lparr>id_room = ''R'', creator = ''A'', participants =
       [(''A'', \<lparr>socketId = ''A'', username = js ''al'', peerId = ''p1'', isMuted = False\<rparr>)]\<rparr>)],
   sockets = [(''A'', \<lparr>currentRoomId = Some ''R'', currentUsername = Some (js ''al''),
                        sio_rooms = [''A'', ''R'']\<rparr>)]\<rparr>"
  by (simp add: evs1_def handler_defs sanitizeUsername_def js_def trim_def slice0_def strip_disallowed_def
        allowed_char_def is_letter_def is_digit_def is_whitespace_def)

section \<open>What each handler does to the registry and to the sessions\<close>

lemma map_of_nonempty: "map_of ps k = Some v \<Longrightarrow> ps \<noteq> []"
  by auto

lemma join_rooms:
  "map_of (rooms (fst (on_join_room st sid sess rid u p))) =
     (map_of (rooms st))(rid \<mapsto> addParticipant
        (case map_of (rooms st) rid of Some r \<Rightarrow> r | None \<Rightarrow> new_Room rid sid)
        sid (sanitizeUsername u) p)"
  by (auto simp: on_join_room_def getOrCreateRoom_def store_room_def Let_def update_conv'
      split: option.splits)

lemma join_sockets:
  "map_of (sockets (fst (on_join_room st sid sess rid u p))) =
     (map_of (sockets st))(sid \<mapsto> sess\<lparr>currentRoomId := Some rid,
         currentUsername := Some (sanitizeUsername u),
         sio_rooms := sio_join rid (sio_rooms sess)\<rparr>)"
  by (auto simp: on_join_room_def getOrCreateRoom_def Let_def update_conv'
      split: option.splits prod.splits)

lemma relay_state [simp]:
  "fst (on_webrtc_offer st sid sess t x) = st"
  "fst (on_webrtc_answer st sid sess t x) = st"
  "fst (on_ice_candidate st sid sess t x) = st"
  by (simp_all add: on_webrtc_offer_def on_webrtc_answer_def on_ice_candidate_def)

lemma send_message_state [simp]: "fst (on_send_message st sid sess m n) = st"
  by (cases "currentRoomId sess") (simp_all add: on_send_message_def Let_def)

lemma kick_cases:
  "fst (on_kick_user st sid sess t) = st \<or>
   (\<exists>rid room. currentRoomId sess = Some rid \<and> rid \<noteq> [] \<and> map_of (rooms st) rid = Some room
      \<and> creator room = sid \<and> t \<noteq> sid
      \<and> map_of (rooms (fst (on_kick_user st sid sess t)))
          = (map_of (rooms st))(rid \<mapsto> removeParticipant room t)
      \<and> (\<forall>s. map_option currentRoomId (map_of (sockets (fst (on_kick_user st sid sess t))) s)
             = map_option currentRoomId (map_of (sockets st) s)))"
  by (cases "currentRoomId sess")
     (auto simp: on_kick_user_def getRoom_def store_room_def isCreator_def Let_def update_conv'
      split: option.splits)

lemma disconnect_sockets:
  "map_of (sockets (fst (on_disconnect st sid sess))) = (map_of (sockets st))(sid := None)"
  by (cases "currentRoomId sess")
     (auto simp: on_disconnect_def getRoom_def store_room_def removeRoom_def Let_def delete_conv'
      split: option.splits)

lemma disconnect_rooms:
  "map_of (rooms (fst (on_disconnect st sid sess))) =
     (case currentRoomId sess of
        None \<Rightarrow> map_of (rooms st)
      | Some rid \<Rightarrow>
          if rid = [] then map_of (rooms st)
          else (case map_of (rooms st) rid of
                  None \<Rightarrow> map_of (rooms st)
                | Some room \<Rightarrow>
                    if isEmpty (removeParticipant room sid)
                    then (map_of (rooms st))(rid := None)
                    else (map_of (rooms st))(rid \<mapsto> removeParticipant room sid)))"
  by (cases "currentRoomId sess")
     (auto simp: on_disconnect_def getRoom_def store_room_def removeRoom_def Let_def delete_conv'
        update_conv' split: option.splits)

lemma disconnect_unjoined:
  "currentRoomId sess = None \<Longrightarrow>
   on_disconnect st sid sess = (st\<lparr>sockets := AList.delete sid (sockets st)\<rparr>, [])"
  by (simp add: on_disconnect_def)

lemma mute_cases:
  "fst (on_toggle_mute st sid sess b) = st \<or>
   (\<exists>rid room p. map_of (rooms st) rid = Some room \<and> map_of (participants room) sid = Some p
      \<and> sockets (fst (on_toggle_mute st sid sess b)) = sockets st
      \<and> map_of (rooms (fst (on_toggle_mute st sid sess b)))
          = (map_of (rooms st))(rid \<mapsto> room\<lparr>participants :=
                AList.update sid (p\<lparr>isMuted := b\<rparr>) (participants room)\<rparr>))"
  by (cases "currentRoomId sess")
     (auto simp: on_toggle_mute_def getRoom_def getParticipant_def store_room_def Let_def update_conv'
      split: option.splits)

section \<open>The registry invariant\<close>

lemma inv_join:
  assumes "rooms_inv st" "map_of (sockets st) sid = Some sess"
  shows "rooms_inv (fst (on_join_room st sid sess rid u p))"
  using assms unfolding rooms_inv_def join_rooms join_sockets
  by (auto simp: addParticipant_def new_Room_def update_conv' split: option.splits if_splits)

lemma inv_kick:
  assumes "rooms_inv st" "map_of (sockets st) sid = Some sess"
  shows "rooms_inv (fst (on_kick_user st sid sess t))"
proof -
  from kick_cases [of st sid sess t] show ?thesis
  proof
    assume "fst (on_kick_user st sid sess t) = st"
    with assms show ?thesis by simp
  next
    assume "\<exists>rid room. currentRoomId sess = Some rid \<and> rid \<noteq> [] \<and> map_of (rooms st) rid = Some room
      \<and> creator room = sid \<and> t \<noteq> sid
      \<and> map_of (rooms (fst (on_kick_user st sid sess t)))
          = (map_of (rooms st))(rid \<mapsto> removeParticipant room t)
      \<and> (\<forall>s. map_option currentRoomId (map_of (sockets (fst (on_kick_user st sid sess t))) s)
             = map_option currentRoomId (map_of (sockets st) s))"
    then obtain rid room where k: "currentRoomId sess = Some rid" "map_of (rooms st) rid = Some room"
      "creator room = sid" "t \<noteq> sid"
      "map_of (rooms (fst (on_kick_user st sid sess t)))
          = (map_of (rooms st))(rid \<mapsto> removeParticipant room t)"
      "\<And>s. map_option currentRoomId (map_of (sockets (fst (on_kick_user st sid sess t))) s)
             = map_option currentRoomId (map_of (sockets st) s)"
      by blast
    have c: "map_of (participants room) sid \<noteq> None"
      using assms k(1,2,3) unfolding rooms_inv_def by blast
    then have c': "map_of (participants (removeParticipant room t)) sid \<noteq> None"
      using k(4) by (simp add: removeParticipant_def delete_conv')
    then have ne: "participants (removeParticipant room t) \<noteq> []"
      by auto
    show ?thesis
      unfolding rooms_inv_def
    proof (intro allI impI)
      fix rid' room'
      assume a: "map_of (rooms (fst (on_kick_user st sid sess t))) rid' = Some room'"
      show "participants room' \<noteq> [] \<and>
        (\<forall>sess'. map_of (sockets (fst (on_kick_user st sid sess t))) (creator room') = Some sess'
            \<and> currentRoomId sess' = Some rid'
           \<longrightarrow> map_of (participants room') (creator room') \<noteq> None)"
      proof (cases "rid' = rid")
        case True
        with a k(5) have "room' = removeParticipant room t" by simp
        moreover have "creator (removeParticipant room t) = sid"
          using k(3) by (simp add: removeParticipant_def)
        ultimately show ?thesis using c' ne by simp
      next
        case False
        with a k(5) have r: "map_of (rooms st) rid' = Some room'" by simp
        show ?thesis
        proof (intro conjI allI impI)
          show "participants room' \<noteq> []" using assms(1) r unfolding rooms_inv_def by blast
        next
          fix sess'
          assume s: "map_of (sockets (fst (on_kick_user st sid sess t))) (creator room') = Some sess'
            \<and> currentRoomId sess' = Some rid'"
          with k(6) [of "creator room'"]
          obtain sess0 where "map_of (sockets st) (creator room') = Some sess0"
            "currentRoomId sess0 = Some rid'"
            by (cases "map_of (sockets st) (creator room')") auto
          then show "map_of (participants room') (creator room') \<noteq> None"
            using assms(1) r unfolding rooms_inv_def by blast
        qed
      qed
    qed
  qed
qed

lemma inv_disconnect:
  assumes "rooms_inv st" "map_of (sockets st) sid = Some sess"
  shows "rooms_inv (fst (on_disconnect st sid sess))"
  unfolding rooms_inv_def
proof (intro allI impI)
  let ?st' = "fst (on_disconnect st sid sess)"
  fix rid' room'
  assume a: "map_of (rooms ?st') rid' = Some room'"
  have keep: "\<And>room. map_of (rooms st) rid' = Some room \<Longrightarrow>
      participants room \<noteq> [] \<and>
      (\<forall>sess'. map_of (sockets st) (creator room) = Some sess' \<and> currentRoomId sess' = Some rid'
           \<longrightarrow> map_of (participants room) (creator room) \<noteq> None)"
    using assms(1) unfolding rooms_inv_def by blast
  have old: "\<And>room. map_of (rooms st) rid' = Some room \<Longrightarrow>
      participants room \<noteq> [] \<and>
      (\<forall>sess'. map_of (sockets ?st') (creator room) = Some sess' \<and> currentRoomId sess' = Some rid'
           \<longrightarrow> map_of (participants room) (creator room) \<noteq> None)"
    using keep by (auto simp: disconnect_sockets split: if_splits)
  consider (same) "map_of (rooms st) rid' = Some room'"
    | (less) room where "map_of (rooms st) rid' = Some room" "room' = removeParticipant room sid"
        "\<not> isEmpty room'"
    using a unfolding disconnect_rooms
    by (auto split: option.splits if_splits)
  then show "participants room' \<noteq> [] \<and>
      (\<forall>sess'. map_of (sockets ?st') (creator room') = Some sess' \<and> currentRoomId sess' = Some rid'
           \<longrightarrow> map_of (participants room') (creator room') \<noteq> None)"
  proof cases
    case same
    then show ?thesis using old by blast
  next
    case less
    have ne: "participants room' \<noteq> []" using less(3) by (simp add: isEmpty_def)
    have cr: "creator room' = creator room" using less(2) by (simp add: removeParticipant_def)
    show ?thesis
    proof (intro conjI allI impI)
      show "participants room' \<noteq> []" by (rule ne)
    next
      fix sess'
      assume s: "map_of (sockets ?st') (creator room') = Some sess' \<and> currentRoomId sess' = Some rid'"
      then have nsid: "creator room \<noteq> sid"
        by (auto simp: disconnect_sockets cr split: if_splits)
      from s old [OF less(1)] have "map_of (participants room) (creator room) \<noteq> None"
        unfolding cr by blast
      then show "map_of (participants room') (creator room') \<noteq> None"
        using nsid unfolding cr less(2) by (simp add: removeParticipant_def delete_conv')
    qed
  qed
qed

lemma inv_mute:
  assumes "rooms_inv st"
  shows "rooms_inv (fst (on_toggle_mute st sid sess b))"
proof -
  from mute_cases [of st sid sess b] show ?thesis
  proof
    assume "fst (on_toggle_mute st sid sess b) = st"
    with assms show ?thesis by simp
  next
    assume "\<exists>rid room p. map_of (rooms st) rid = Some room \<and> map_of (participants room) sid = Some p
      \<and> sockets (fst (on_toggle_mute st sid sess b)) = sockets st
      \<and> map_of (rooms (fst (on_toggle_mute st sid sess b)))
          = (map_of (rooms st))(rid \<mapsto> room\<lparr>participants :=
                AList.update sid (p\<lparr>isMuted := b\<rparr>) (participants room)\<rparr>)"
    then obtain rid room p where m: "map_of (rooms st) rid = Some room"
      "map_of (participants room) sid = Some p"
      "sockets (fst (on_toggle_mute st sid sess b)) = sockets st"
      "map_of (rooms (fst (on_toggle_mute st sid sess b)))
          = (map_of (rooms st))(rid \<mapsto> room\<lparr>participants :=
                AList.update sid (p\<lparr>isMuted := b\<rparr>) (participants room)\<rparr>)"
      by blast
    show ?thesis
      using assms m(1,2) unfolding rooms_inv_def m(3) m(4)
      by (auto simp: update_conv' split: if_splits)
  qed
qed

lemma inv_step:
  assumes "rooms_inv st"
  shows "rooms_inv (fst (step st e))"
proof (cases e)
  case (Pair sid ev)
  show ?thesis
  proof (cases "map_of (sockets st) sid")
    case None
    then show ?thesis using assms Pair
      by (cases ev) (auto simp: step_def rooms_inv_def new_Session_def update_conv')
  next
    case (Some sess)
    then show ?thesis using assms Pair
      by (cases ev)
         (simp_all add: step_def inv_join inv_kick inv_disconnect inv_mute)
  qed
qed

lemma inv_init: "rooms_inv init_state"
  by (simp add: rooms_inv_def init_state_def)

lemma inv_run: "rooms_inv st \<Longrightarrow> rooms_inv (run_state st evs)"
  by (induction evs rule: rev_induct) (simp_all add: run_state_def inv_step)

lemma step_removes_room:
  assumes "map_of (rooms st) rid = Some room"
  shows "(map_of (rooms (fst (step st e))) rid = None) =
         (\<exists>sid sess. e = (sid, Disconnect) \<and> map_of (sockets st) sid = Some sess
            \<and> currentRoomId sess = Some rid \<and> rid \<noteq> [] \<and> isEmpty (removeParticipant room sid))"
proof (cases e)
  case (Pair sid ev)
  show ?thesis
  proof (cases "map_of (sockets st) sid")
    case None
    then show ?thesis using assms Pair
      by (cases ev) (auto simp: step_def)
  next
    case (Some sess)
    show ?thesis
    proof (cases ev)
      case (JoinRoom r u p)
      then show ?thesis using assms Pair Some by (simp add: step_def join_rooms)
    next
      case (KickUser t)
      then show ?thesis using assms Pair Some kick_cases [of st sid sess t]
        by (auto simp: step_def)
    next
      case (ToggleMute b)
      then show ?thesis using assms Pair Some mute_cases [of st sid sess b]
        by (auto simp: step_def)
    next
      case Disconnect
      then show ?thesis using assms Pair Some
        by (auto simp: step_def disconnect_rooms split: option.splits if_splits)
    qed (use assms Pair Some in \<open>simp_all add: step_def\<close>)
  qed
qed

text \<open>
  C1.  In every state the relay reaches from the empty registry, by any sequence of
  events, a room identifier is in the registry exactly when a room with at least one
  participant is registered under it.  A registered room leaves the registry in a step
  exactly when that step is the disconnect of a session whose current room it is and
  taking that session out leaves the room without participants; join, kick and every
  other event keep it, and by the first part keep it non-empty.
\<close>

theorem room_in_registry_iff_nonempty:
  "(\<forall>rid. (map_of (rooms (run_state init_state evs)) rid \<noteq> None) =
          (\<exists>room. map_of (rooms (run_state init_state evs)) rid = Some room
                  \<and> participants room \<noteq> []))
   \<and> (\<forall>e rid room. map_of (rooms (run_state init_state evs)) rid = Some room \<longrightarrow>
         (map_of (rooms (fst (step (run_state init_state evs) e))) rid = None) =
         (\<exists>sid sess. e = (sid, Disconnect)
            \<and> map_of (sockets (run_state init_state evs)) sid = Some sess
            \<and> currentRoomId sess = Some rid \<and> rid \<noteq> []
            \<and> isEmpty (removeParticipant room sid)))"
proof (intro conjI allI impI)
  fix rid
  have "rooms_inv (run_state init_state evs)" by (simp add: inv_run inv_init)
  then show "(map_of (rooms (run_state init_state evs)) rid \<noteq> None) =
          (\<exists>room. map_of (rooms (run_state init_state evs)) rid = Some room
                  \<and> participants room \<noteq> [])"
    unfolding rooms_inv_def by auto
next
  fix e rid room
  assume "map_of (rooms (run_state init_state evs)) rid = Some room"
  then show "(map_of (rooms (fst (step (run_state init_state evs) e))) rid = None) =
         (\<exists>sid sess. e = (sid, Disconnect)
            \<and> map_of (sockets (run_state init_state evs)) sid = Some sess
            \<and> currentRoomId sess = Some rid \<and> rid \<noteq> []
            \<and> isEmpty (removeParticipant room sid))"
    by (rule step_removes_room)
qed

theorem room_in_registry_iff_nonempty_witness:
  "map_of (rooms (run_state init_state evs1)) ''R'' \<noteq> None
   \<and> map_of (rooms (fst (step (run_state init_state evs1) (''A'', Disconnect)))) ''R'' = None
   \<and> map_of (rooms (fst (step (run_state init_state evs1) (''A'', KickUser ''B'')))) ''R'' \<noteq> None"
proof -
  let ?st = "run_state init_state evs1"
  let ?room = "\<lparr>id_room = ''R'', creator = ''A'', participants =
       [(''A'', \<lparr>socketId = ''A'', username = js ''al'', peerId = ''p1'', isMuted = False\<rparr>)]\<rparr>"
  note t = room_in_registry_iff_nonempty [of evs1]
  have r: "map_of (rooms ?st) ''R'' = Some ?room" by (simp add: evs1_eval)
  have "\<exists>sid sess. (''A'', Disconnect) = (sid, Disconnect)
            \<and> map_of (sockets ?st) sid = Some sess
            \<and> currentRoomId sess = Some ''R'' \<and> ''R'' \<noteq> []
            \<and> isEmpty (removeParticipant ?room sid)"
    by (simp add: evs1_eval isEmpty_def removeParticipant_def)
  with t r have gone: "map_of (rooms (fst (step ?st (''A'', Disconnect)))) ''R'' = None"
    by blast
  have "\<not> (\<exists>sid sess. (''A'', KickUser ''B'') = (sid, Disconnect)
            \<and> map_of (sockets ?st) sid = Some sess
            \<and> currentRoomId sess = Some ''R'' \<and> ''R'' \<noteq> []
            \<and> isEmpty (removeParticipant ?room sid))"
    by simp
  with t r have kept: "map_of (rooms (fst (step ?st (''A'', KickUser ''B'')))) ''R'' \<noteq> None"
    by blast
  have ex: "map_of (rooms ?st) ''R'' \<noteq> None"
    using t r by simp
  from ex gone kept show ?thesis by blast
qed

section \<open>Sessions that never joined\<close>

lemma step_sockets_other:
  assumes "\<not> (fst e = sid \<and> is_join (snd e))"
  shows "map_of (sockets (fst (step st e))) sid = None \<or>
         map_option currentRoomId (map_of (sockets (fst (step st e))) sid) = Some None \<or>
         map_option currentRoomId (map_of (sockets (fst (step st e))) sid)
           = map_option currentRoomId (map_of (sockets st) sid)"
proof (cases e)
  case (Pair s ev)
  show ?thesis
  proof (cases "map_of (sockets st) s")
    case None
    then show ?thesis using Pair
      by (cases ev) (auto simp: step_def update_conv' new_Session_def)
  next
    case (Some sess)
    show ?thesis
    proof (cases ev)
      case (JoinRoom r u p)
      then have "s \<noteq> sid" using assms Pair by auto
      then show ?thesis using Pair Some JoinRoom by (simp add: step_def join_sockets)
    next
      case (KickUser t)
      then show ?thesis using Pair Some kick_cases [of st s sess t]
        by (auto simp: step_def)
    next
      case (ToggleMute b)
      then show ?thesis using Pair Some mute_cases [of st s sess b]
        by (auto simp: step_def)
    next
      case Disconnect
      then show ?thesis using Pair Some
        by (auto simp: step_def disconnect_sockets)
    qed (use Pair Some in \<open>simp_all add: step_def\<close>)
  qed
qed

lemma never_joined_run:
  assumes "\<forall>e \<in> set evs. \<not> (fst e = sid \<and> is_join (snd e))"
    and "\<forall>sess. map_of (sockets st) sid = Some sess \<longrightarrow> currentRoomId sess = None"
  shows "\<forall>sess. map_of (sockets (run_state st evs)) sid = Some sess \<longrightarrow> currentRoomId sess = None"
  using assms
proof (induction evs rule: rev_induct)
  case Nil
  then show ?case by (simp add: run_state_def)
next
  case (snoc e evs)
  let ?s = "run_state st evs"
  have ih: "\<forall>sess. map_of (sockets ?s) sid = Some sess \<longrightarrow> currentRoomId sess = None"
    using snoc by simp
  have ne: "\<not> (fst e = sid \<and> is_join (snd e))" using snoc.prems(1) by simp
  have eq: "run_state st (evs @ [e]) = fst (step ?s e)" by (simp add: run_state_def)
  show ?case
    unfolding eq
  proof (intro allI impI)
    fix sess
    assume a: "map_of (sockets (fst (step ?s e))) sid = Some sess"
    show "currentRoomId sess = None"
      using step_sockets_other [OF ne, of ?s] a ih
      by (cases "map_of (sockets ?s) sid") auto
  qed
qed

text \<open>
  C10.  A connection that is new in \<open>st\<close> and sends no join request: whatever else
  happens before it disconnects, its disconnect leaves the registry and every room in
  it as they are and emits nothing, so no departure notification either.
\<close>

theorem disconnect_never_joined_noop:
  assumes "map_of (sockets st) sid = None"
    and "\<forall>e \<in> set evs. \<not> (fst e = sid \<and> is_join (snd e))"
  shows "rooms (fst (step (run_state st ((sid, Connect) # evs)) (sid, Disconnect)))
           = rooms (run_state st ((sid, Connect) # evs))
         \<and> snd (step (run_state st ((sid, Connect) # evs)) (sid, Disconnect)) = []"
proof -
  let ?a = "fst (step st (sid, Connect))"
  let ?s = "run_state st ((sid, Connect) # evs)"
  have r: "?s = run_state ?a evs" by (simp add: run_state_def)
  have "\<forall>sess. map_of (sockets ?a) sid = Some sess \<longrightarrow> currentRoomId sess = None"
    using assms(1) by (simp add: step_def update_conv' new_Session_def)
  then have n: "\<forall>sess. map_of (sockets ?s) sid = Some sess \<longrightarrow> currentRoomId sess = None"
    unfolding r using never_joined_run [OF assms(2)] by blast
  show ?thesis
  proof (cases "map_of (sockets ?s) sid")
    case None
    then show ?thesis by (simp add: step_def)
  next
    case (Some sess)
    with n have "currentRoomId sess = None" by simp
    then show ?thesis using Some by (simp add: step_def disconnect_unjoined)
  qed
qed

theorem disconnect_never_joined_noop_witness:
  "rooms (fst (step (run_state st_A [(''C'', Connect), (''C'', KickUser ''A''),
                                      (''C'', SendMessage (JString (js ''hi'')) 5)])
                 (''C'', Disconnect)))
     = rooms (run_state st_A [(''C'', Connect), (''C'', KickUser ''A''),
                              (''C'', SendMessage (JString (js ''hi'')) 5)])
   \<and> snd (step (run_state st_A [(''C'', Connect), (''C'', KickUser ''A''),
                                 (''C'', SendMessage (JString (js ''hi'')) 5)])
             (''C'', Disconnect)) = []
   \<and> rooms (run_state st_A [(''C'', Connect), (''C'', KickUser ''A''),
                              (''C'', SendMessage (JString (js ''hi'')) 5)]) \<noteq> []"
proof -
  let ?evs = "[(''C'', KickUser ''A''), (''C'', SendMessage (JString (js ''hi'')) 5)]"
  have 1: "map_of (sockets st_A) ''C'' = None" by (simp add: st_A_eval)
  have 2: "\<forall>e \<in> set ?evs. \<not> (fst e = ''C'' \<and> is_join (snd e))" by simp
  have 3: "rooms (run_state st_A ((''C'', Connect) # ?evs)) \<noteq> []"
    unfolding st_A_eval by (simp add: handler_defs sanitize_defs)
  from disconnect_never_joined_noop [OF 1 2] 3 show ?thesis by simp
qed

section \<open>The creator of a room\<close>

lemma reports_announcements:
  "isCreator_reports sid (map (\<lambda>t. (t, UserJoined a b c)) ts) = []"
  by (induction ts) simp_all

lemma join_reports:
  "isCreator_reports sid (snd (on_join_room st sid sess rid u p)) =
     [isCreator (addParticipant
        (case map_of (rooms st) rid of Some r \<Rightarrow> r | None \<Rightarrow> new_Room rid sid)
        sid (sanitizeUsername u) p) sid]"
  by (auto simp: on_join_room_def getOrCreateRoom_def Let_def socket_emit_def socket_to_def
        reports_announcements split: option.splits)

lemma step_keeps_creator:
  assumes "map_of (rooms st) rid = Some room"
    and "map_of (rooms (fst (step st e))) rid = Some room'"
  shows "creator room' = creator room"
proof (cases e)
  case (Pair sid ev)
  show ?thesis
  proof (cases "map_of (sockets st) sid")
    case None
    then show ?thesis using assms Pair
      by (cases ev) (auto simp: step_def)
  next
    case (Some sess)
    show ?thesis
    proof (cases ev)
      case (JoinRoom r u p)
      then show ?thesis using assms Pair Some
        by (auto simp: step_def join_rooms addParticipant_def split: if_splits)
    next
      case (KickUser t)
      then show ?thesis using assms Pair Some kick_cases [of st sid sess t]
        by (auto simp: step_def removeParticipant_def split: if_splits)
    next
      case (ToggleMute b)
      then show ?thesis using assms Pair Some mute_cases [of st sid sess b]
        by (auto simp: step_def split: if_splits)
    next
      case Disconnect
      then show ?thesis using assms Pair Some
        by (auto simp: step_def disconnect_rooms removeParticipant_def split: option.splits if_splits)
    qed (use assms Pair Some in \<open>simp_all add: step_def\<close>)
  qed
qed

lemma persists_creator:
  assumes "persists rid st evs" "map_of (rooms st) rid = Some room"
  shows "\<exists>room'. map_of (rooms (run_state st evs)) rid = Some room' \<and> creator room' = creator room"
  using assms
proof (induction evs arbitrary: st room)
  case Nil
  then show ?case by (simp add: run_state_def)
next
  case (Cons e es)
  from Cons.prems(1) have p: "persists rid (fst (step st e)) es" by simp
  then have "map_of (rooms (fst (step st e))) rid \<noteq> None" by (cases es) simp_all
  then obtain r1 where r1: "map_of (rooms (fst (step st e))) rid = Some r1" by blast
  have c: "creator r1 = creator room" using step_keeps_creator [OF Cons.prems(2) r1] .
  from Cons.IH [OF p r1] c show ?case by (simp add: run_state_def)
qed

text \<open>
  C7.  The session that joins a room identifier absent from the registry gets a join
  confirmation with \<open>isCreator\<close> true.  After any events during which the room stays in
  the registry, the join of another session to that room gets a join confirmation with
  \<open>isCreator\<close> false.
\<close>

theorem first_joiner_is_creator:
  assumes "map_of (sockets st) sid = Some sess"
    and "map_of (rooms st) rid = None"
    and "step st (sid, JoinRoom rid u p) = (st1, out1)"
    and "persists rid st1 evs"
    and "map_of (sockets (run_state st1 evs)) sid' = Some sess'"
    and "sid' \<noteq> sid"
    and "step (run_state st1 evs) (sid', JoinRoom rid u' p') = (st2, out2)"
  shows "isCreator_reports sid out1 = [True] \<and> isCreator_reports sid' out2 = [False]"
proof -
  have o1: "out1 = snd (on_join_room st sid sess rid u p)"
    and s1: "st1 = fst (on_join_room st sid sess rid u p)"
    using assms(1,3) by (simp_all add: step_def)
  have first: "isCreator_reports sid out1 = [True]"
    unfolding o1 join_reports using assms(2)
    by (simp add: isCreator_def addParticipant_def new_Room_def)
  obtain room1 where r1: "map_of (rooms st1) rid = Some room1" "creator room1 = sid"
    unfolding s1 join_rooms using assms(2) by (simp add: addParticipant_def new_Room_def)
  from persists_creator [OF assms(4) r1(1)] r1(2)
  obtain room2 where r2: "map_of (rooms (run_state st1 evs)) rid = Some room2" "creator room2 = sid"
    by auto
  have o2: "out2 = snd (on_join_room (run_state st1 evs) sid' sess' rid u' p')"
    using assms(5,7) by (simp add: step_def)
  have later: "isCreator_reports sid' out2 = [False]"
    unfolding o2 join_reports using r2 assms(6)
    by (simp add: isCreator_def addParticipant_def)
  from first later show ?thesis by simp
qed

theorem first_joiner_is_creator_witness:
  "isCreator_reports ''A'' (snd (step st_conn (''A'', JoinRoom ''R'' (JString (js ''al'')) ''p1''))) = [True]
   \<and> isCreator_reports ''B''
        (snd (step (run_state (fst (step st_conn (''A'', JoinRoom ''R'' (JString (js ''al'')) ''p1'')))
                      [(''A'', ToggleMute True)])
                (''B'', JoinRoom ''R'' JNull ''p2''))) = [False]"
proof -
  let ?j = "(''A'', JoinRoom ''R'' (JString (js ''al'')) ''p1'')"
  let ?st1 = "fst (step st_conn ?j)"
  let ?evs = "[(''A'', ToggleMute True)]"
  let ?st2 = "run_state ?st1 ?evs"
  let ?sA = "\<lparr>currentRoomId = None, currentUsername = None, sio_rooms = [''A'']\<rparr>"
  let ?sB = "\<lparr>currentRoomId = None, currentUsername = None, sio_rooms = [''B'']\<rparr>"
  have 1: "map_of (sockets st_conn) ''A'' = Some ?sA" by (simp add: st_conn_eval)
  have 2: "map_of (rooms st_conn) ''R'' = None" by (simp add: st_conn_eval)
  have 3: "step st_conn ?j = (?st1, snd (step st_conn ?j))" by simp
  have 4: "persists ''R'' ?st1 ?evs"
    unfolding st_conn_eval by (simp add: handler_defs sanitize_defs)
  have 5: "map_of (sockets ?st2) ''B'' = Some ?sB"
    unfolding st_conn_eval by (simp add: handler_defs sanitize_defs)
  have 6: "''B'' \<noteq> ''A''" by simp
  have 7: "step ?st2 (''B'', JoinRoom ''R'' JNull ''p2'') =
      (fst (step ?st2 (''B'', JoinRoom ''R'' JNull ''p2'')),
       snd (step ?st2 (''B'', JoinRoom ''R'' JNull ''p2'')))" by simp
  from first_joiner_is_creator [OF 1 2 3 4 5 6 7] show ?thesis .
qed

section \<open>Kick requests that are refused\<close>

text \<open>
  C4, as the handler behaves.  Room R has creator A.  B, connected but never joined, asks
  to kick A, and then to kick itself: nothing is emitted, so no error.  In the room whose
  id is the empty string, created by A and joined by B, B's request to kick A is dropped
  in the same way, the stored room id being falsy.  And B, a participant of R who has
  since joined and thereby created S, asks to kick A: the request is judged against S,
  B gets no error, and A is told it was kicked.
\<close>

theorem kick_without_error_counterexample:
  "map_of (rooms (run_state st_A [(''B'', Connect)])) ''R''
     = Some \<lparr>id_room = ''R'', creator = ''A'', participants =
         [(''A'', \<lparr>socketId = ''A'', username = js ''al'', peerId = ''p1'', isMuted = False\<rparr>)]\<rparr>
   \<and> step (run_state st_A [(''B'', Connect)]) (''B'', KickUser ''A'')
       = (run_state st_A [(''B'', Connect)], [])
   \<and> step (run_state st_A [(''B'', Connect)]) (''B'', KickUser ''B'')
       = (run_state st_A [(''B'', Connect)], [])
   \<and> map_of (rooms (run_state st_conn
          [(''A'', JoinRoom [] JNull ''p1''), (''B'', JoinRoom [] JNull ''p2'')])) []
     = Some \<lparr>id_room = [], creator = ''A'', participants =
         [(''A'', \<lparr>socketId = ''A'', username = js ''Anonymous'', peerId = ''p1'', isMuted = False\<rparr>),
          (''B'', \<lparr>socketId = ''B'', username = js ''Anonymous'', peerId = ''p2'', isMuted = False\<rparr>)]\<rparr>
   \<and> step (run_state st_conn [(''A'', JoinRoom [] JNull ''p1''), (''B'', JoinRoom [] JNull ''p2'')])
          (''B'', KickUser ''A'')
       = (run_state st_conn [(''A'', JoinRoom [] JNull ''p1''), (''B'', JoinRoom [] JNull ''p2'')], [])
   \<and> step (run_state st_AB [(''B'', JoinRoom ''S'' JNull ''p3'')]) (''B'', KickUser ''A'')
       = (run_state st_AB [(''B'', JoinRoom ''S'' JNull ''p3'')], [(''A'', YouWereKicked)])"
  unfolding st_A_eval st_AB_eval st_conn_eval by (simp add: handler_defs sanitize_defs)

text \<open>
  C4, amended.  A kick request is judged against the requester's current room only.
  When that room id is truthy and names a registered room, and the requester is not that
  room's creator or the target is the requester itself, the only message emitted is an
  error to the requester and the whole server state, so the room's participants and all
  their fields, is unchanged.  For any kick request at all, every registered room of
  which the requester is not the creator, and every registered room when the target is
  the requester, is unchanged.  A request from a session whose current room id is falsy
  (it never joined, or joined the room with the empty id) or names no registered room
  is dropped: nothing is emitted, no error either, and the state is unchanged.
\<close>

theorem kick_rejected_unchanged:
  "(map_of (sockets st) sid = Some sess
      \<and> truthy_room (currentRoomId sess) \<and> currentRoomId sess = Some rid
      \<and> map_of (rooms st) rid = Some room \<and> (creator room \<noteq> sid \<or> target = sid)
     \<longrightarrow> step st (sid, KickUser target) =
           (st, [(sid, ErrorMsg (if creator room \<noteq> sid
                                 then ''Only the room creator can kick users''
                                 else ''Cannot kick yourself''))]))
   \<and> (\<forall>rid' room'. map_of (rooms st) rid' = Some room' \<and> (creator room' \<noteq> sid \<or> target = sid)
         \<longrightarrow> map_of (rooms (fst (step st (sid, KickUser target)))) rid' = Some room')
   \<and> (map_of (sockets st) sid = Some sess
      \<and> (\<not> truthy_room (currentRoomId sess)
          \<or> (\<exists>r. currentRoomId sess = Some r \<and> map_of (rooms st) r = None))
     \<longrightarrow> step st (sid, KickUser target) = (st, []))"
proof (intro conjI allI impI)
  assume "map_of (sockets st) sid = Some sess
      \<and> truthy_room (currentRoomId sess) \<and> currentRoomId sess = Some rid
      \<and> map_of (rooms st) rid = Some room \<and> (creator room \<noteq> sid \<or> target = sid)"
  then show "step st (sid, KickUser target) =
           (st, [(sid, ErrorMsg (if creator room \<noteq> sid
                                 then ''Only the room creator can kick users''
                                 else ''Cannot kick yourself''))])"
    by (auto simp: step_def on_kick_user_def getRoom_def isCreator_def socket_emit_def)
next
  fix rid' room'
  assume a: "map_of (rooms st) rid' = Some room' \<and> (creator room' \<noteq> sid \<or> target = sid)"
  show "map_of (rooms (fst (step st (sid, KickUser target)))) rid' = Some room'"
  proof (cases "map_of (sockets st) sid")
    case None
    then show ?thesis using a by (simp add: step_def)
  next
    case (Some s)
    then show ?thesis using a kick_cases [of st sid s target]
      by (auto simp: step_def)
  qed
next
  assume "map_of (sockets st) sid = Some sess
      \<and> (\<not> truthy_room (currentRoomId sess)
          \<or> (\<exists>r. currentRoomId sess = Some r \<and> map_of (rooms st) r = None))"
  then show "step st (sid, KickUser target) = (st, [])"
    by (cases "currentRoomId sess") (auto simp: step_def on_kick_user_def getRoom_def)
qed

theorem kick_rejected_unchanged_witness:
  "step st_AB (''B'', KickUser ''A'') =
     (st_AB, [(''B'', ErrorMsg ''Only the room creator can kick users'')])
   \<and> step st_AB (''A'', KickUser ''A'') = (st_AB, [(''A'', ErrorMsg ''Cannot kick yourself'')])
   \<and> map_of (rooms (fst (step st_AB (''B'', KickUser ''A'')))) ''R'' = map_of (rooms st_AB) ''R''
   \<and> step st_conn (''B'', KickUser ''A'') = (st_conn, [])"
proof -
  let ?room = "\<lparr>id_room = ''R'', creator = ''A'', participants =
       [(''A'', \<lparr>socketId = ''A'', username = [97, 108], peerId = ''p1'', isMuted = False\<rparr>),
        (''B'', \<lparr>socketId = ''B'', username = [65, 110, 111, 110, 121, 109, 111, 117, 115],
                  peerId = ''p2'', isMuted = False\<rparr>)]\<rparr>"
  let ?sA = "\<lparr>currentRoomId = Some ''R'', currentUsername = Some [97, 108 :: jschar],
                          sio_rooms = [''A'', ''R'']\<rparr>"
  let ?sB = "\<lparr>currentRoomId = Some ''R'',
                          currentUsername = Some [65, 110, 111, 110, 121, 109, 111, 117, 115 :: jschar],
                          sio_rooms = [''B'', ''R'']\<rparr>"
  let ?uB = "\<lparr>currentRoomId = None, currentUsername = None, sio_rooms = [''B'']\<rparr>"
  have r: "map_of (rooms st_AB) ''R'' = Some ?room" by (simp add: st_AB_eval)
  have a: "map_of (sockets st_AB) ''A'' = Some ?sA" by (simp add: st_AB_eval)
  have b: "map_of (sockets st_AB) ''B'' = Some ?sB" by (simp add: st_AB_eval)
  have u: "map_of (sockets st_conn) ''B'' = Some ?uB" by (simp add: st_conn_eval)
  have 1: "step st_AB (''B'', KickUser ''A'') =
     (st_AB, [(''B'', ErrorMsg ''Only the room creator can kick users'')])"
    using kick_rejected_unchanged [of st_AB "''B''" ?sB "''R''" ?room "''A''"] r b by simp
  have 2: "step st_AB (''A'', KickUser ''A'') = (st_AB, [(''A'', ErrorMsg ''Cannot kick yourself'')])"
    using kick_rejected_unchanged [of st_AB "''A''" ?sA "''R''" ?room "''A''"] r a by simp
  have 3: "map_of (rooms (fst (step st_AB (''B'', KickUser ''A'')))) ''R'' = map_of (rooms st_AB) ''R''"
    using kick_rejected_unchanged [of st_AB "''B''" ?sB "''R''" ?room "''A''"] r by simp
  have 4: "step st_conn (''B'', KickUser ''A'') = (st_conn, [])"
    using kick_rejected_unchanged [of st_conn "''B''" ?uB _ _ "''A''"] u by simp
  from 1 2 3 4 show ?thesis by blast
qed

section \<open>A join request from a session that has joined\<close>

lemma join_announced:
  assumes "t \<noteq> sid" "(t, s) \<in> set (sockets (fst (on_join_room st sid sess rid u p)))"
    "rid \<in> set (sio_rooms s)"
  shows "(t, UserJoined sid (sanitizeUsername u) p) \<in> set (snd (on_join_room st sid sess rid u p))"
proof -
  have "t \<in> set (in_group (fst (on_join_room st sid sess rid u p)) rid)"
    unfolding in_group_def using assms(2,3) by force
  then show ?thesis using assms(1)
    by (auto simp: on_join_room_def Let_def socket_to_def socket_emit_def split: prod.splits)
qed

lemma join_ignores_context:
  "on_join_room
     (st\<lparr>sockets := AList.update sid (sess\<lparr>currentRoomId := None, currentUsername := None\<rparr>)
                      (sockets st)\<rparr>)
     sid (sess\<lparr>currentRoomId := None, currentUsername := None\<rparr>) rid u p
   = on_join_room st sid sess rid u p"
  by (simp add: on_join_room_def Let_def socket_to_def in_group_def split: prod.splits)

text \<open>
  C2, as the handler behaves.  The session A is in room R and asks to join S: the request
  is carried out.  Room S is created with A as its participant and creator, A's recorded
  context becomes S with the new name, A stays a participant of R, and A receives a join
  confirmation.
\<close>

theorem join_while_joined_counterexample:
  "map_of (sockets st_A) ''A''
     = Some \<lparr>currentRoomId = Some ''R'', currentUsername = Some (js ''al''),
             sio_rooms = [''A'', ''R'']\<rparr>
   \<and> step st_A (''A'', JoinRoom ''S'' (JString (js ''bo'')) ''p9'') =
      (\<lparr>rooms = [(''R'', \<lparr>id_room = ''R'', creator = ''A'', participants =
                     [(''A'', \<lparr>socketId = ''A'', username = js ''al'', peerId = ''p1'',
                               isMuted = False\<rparr>)]\<rparr>),
                 (''S'', \<lparr>id_room = ''S'', creator = ''A'', participants =
                     [(''A'', \<lparr>socketId = ''A'', username = js ''bo'', peerId = ''p9'',
                               isMuted = False\<rparr>)]\<rparr>)],
        sockets = [(''A'', \<lparr>currentRoomId = Some ''S'', currentUsername = Some (js ''bo''),
                             sio_rooms = [''A'', ''R'', ''S'']\<rparr>)]\<rparr>,
       [(''A'', RoomJoined [] True)])"
  unfolding st_A_eval by (simp add: handler_defs sanitize_defs)

text \<open>
  C2, amended.  A join request from a session that has already joined (its current room
  id is truthy) is not rejected;
  it is processed as a first join is.  The sanitized name and the media tag are stored
  under the session's identity in the requested room (created if absent), the session's
  context becomes the requested room and the sanitized name, the requester gets exactly
  one join confirmation, every other connection in the room's broadcast group gets the
  join announcement, and the registry entry of the previous room, when it is another
  room, is untouched.  The outcome is the one a session with an empty context gets.
\<close>

theorem rejoin_is_processed:
  assumes "map_of (sockets st) sid = Some sess"
    and "truthy_room (currentRoomId sess)" and "currentRoomId sess = Some r0"
    and "step st (sid, JoinRoom rid u p) = (st', out)"
  shows "(\<exists>room. map_of (rooms st') rid = Some room
            \<and> map_of (participants room) sid = Some (new_Participant sid (sanitizeUsername u) p))
       \<and> map_of (sockets st') sid =
            Some (sess\<lparr>currentRoomId := Some rid, currentUsername := Some (sanitizeUsername u),
                       sio_rooms := sio_join rid (sio_rooms sess)\<rparr>)
       \<and> length (isCreator_reports sid out) = 1
       \<and> (\<forall>t s. t \<noteq> sid \<and> (t, s) \<in> set (sockets st') \<and> rid \<in> set (sio_rooms s)
              \<longrightarrow> (t, UserJoined sid (sanitizeUsername u) p) \<in> set out)
       \<and> (r0 \<noteq> rid \<longrightarrow> map_of (rooms st') r0 = map_of (rooms st) r0)
       \<and> step (st\<lparr>sockets := AList.update sid
                     (sess\<lparr>currentRoomId := None, currentUsername := None\<rparr>) (sockets st)\<rparr>)
               (sid, JoinRoom rid u p) = (st', out)"
proof -
  have s: "st' = fst (on_join_room st sid sess rid u p)"
    and out: "out = snd (on_join_room st sid sess rid u p)"
    using assms(1,4) by (simp_all add: step_def)
  have 1: "\<exists>room. map_of (rooms st') rid = Some room
            \<and> map_of (participants room) sid = Some (new_Participant sid (sanitizeUsername u) p)"
    unfolding s join_rooms by (simp add: addParticipant_def update_conv')
  have 2: "map_of (sockets st') sid =
            Some (sess\<lparr>currentRoomId := Some rid, currentUsername := Some (sanitizeUsername u),
                       sio_rooms := sio_join rid (sio_rooms sess)\<rparr>)"
    unfolding s join_sockets by simp
  have 3: "length (isCreator_reports sid out) = 1"
    unfolding out join_reports by simp
  have 4: "\<forall>t s. t \<noteq> sid \<and> (t, s) \<in> set (sockets st') \<and> rid \<in> set (sio_rooms s)
              \<longrightarrow> (t, UserJoined sid (sanitizeUsername u) p) \<in> set out"
    unfolding s out using join_announced by blast
  have 5: "r0 \<noteq> rid \<longrightarrow> map_of (rooms st') r0 = map_of (rooms st) r0"
    unfolding s join_rooms by simp
  have 6: "step (st\<lparr>sockets := AList.update sid
                     (sess\<lparr>currentRoomId := None, currentUsername := None\<rparr>) (sockets st)\<rparr>)
               (sid, JoinRoom rid u p) = (st', out)"
    using assms(4) assms(1) by (simp add: step_def update_conv' join_ignores_context)
  from 1 2 3 4 5 6 show ?thesis by blast
qed

theorem rejoin_is_processed_witness:
  "map_of (sockets (fst (step st_AB (''B'', JoinRoom ''R'' (JString (js ''bo'')) ''p9'')))) ''B''
     = Some \<lparr>currentRoomId = Some ''R'', currentUsername = Some (js ''bo''),
             sio_rooms = [''B'', ''R'']\<rparr>
   \<and> length (isCreator_reports ''B''
        (snd (step st_AB (''B'', JoinRoom ''R'' (JString (js ''bo'')) ''p9'')))) = 1
   \<and> (''A'', UserJoined ''B'' (js ''bo'') ''p9'')
        \<in> set (snd (step st_AB (''B'', JoinRoom ''R'' (JString (js ''bo'')) ''p9'')))"
proof -
  let ?j = "(''B'', JoinRoom ''R'' (JString (js ''bo'')) ''p9'')"
  let ?sA = "\<lparr>currentRoomId = Some ''R'', currentUsername = Some [97, 108 :: jschar],
                          sio_rooms = [''A'', ''R'']\<rparr>"
  let ?sB = "\<lparr>currentRoomId = Some ''R'',
                currentUsername = Some [65, 110, 111, 110, 121, 109, 111, 117, 115 :: jschar],
                sio_rooms = [''B'', ''R'']\<rparr>"
  have 1: "map_of (sockets st_AB) ''B'' = Some ?sB" by (simp add: st_AB_eval)
  have 2: "truthy_room (currentRoomId ?sB)" by simp
  have 3: "currentRoomId ?sB = Some ''R''" by simp
  have 4: "step st_AB ?j = (fst (step st_AB ?j), snd (step st_AB ?j))" by simp
  have su: "sanitizeUsername (JString (js ''bo'')) = js ''bo''"
    by (simp add: sanitize_defs)
  have st': "fst (step st_AB ?j) = fst (on_join_room st_AB ''B'' ?sB ''R'' (JString (js ''bo'')) ''p9'')"
    using 1 by (simp add: step_def)
  have "map_of (sockets (fst (step st_AB ?j))) ''A'' = Some ?sA"
    unfolding st' join_sockets by (simp add: st_AB_eval)
  then have m: "(''A'', ?sA) \<in> set (sockets (fst (step st_AB ?j)))"
    by (rule map_of_SomeD)
  note t = rejoin_is_processed [OF 1 2 3 4]
  have a: "map_of (sockets (fst (step st_AB ?j))) ''B''
     = Some \<lparr>currentRoomId = Some ''R'', currentUsername = Some (js ''bo''),
             sio_rooms = [''B'', ''R'']\<rparr>"
    using t by (simp add: su sio_join_def)
  have b: "length (isCreator_reports ''B'' (snd (step st_AB ?j))) = 1"
    by (rule t [THEN conjunct2, THEN conjunct2, THEN conjunct1])
  have "''A'' \<noteq> ''B'' \<and> (''A'', ?sA) \<in> set (sockets (fst (step st_AB ?j)))
          \<and> ''R'' \<in> set (sio_rooms ?sA)"
    using m by simp
  then have "(''A'', UserJoined ''B'' (sanitizeUsername (JString (js ''bo''))) ''p9'')
        \<in> set (snd (step st_AB ?j))"
    by (rule t [THEN conjunct2, THEN conjunct2, THEN conjunct2, THEN conjunct1, rule_format])
  then have c: "(''A'', UserJoined ''B'' (js ''bo'') ''p9'') \<in> set (snd (step st_AB ?j))"
    by (simp only: su)
  from a b c show ?thesis by blast
qed

section \<open>Relaying offers, answers and candidates\<close>

lemma socket_to_set:
  "((t, m') \<in> set (socket_to st sid g m)) =
     (m' = m \<and> t \<noteq> sid \<and> (\<exists>s. (t, s) \<in> set (sockets st) \<and> g \<in> set (sio_rooms s)))"
  by (force simp: socket_to_def in_group_def)

text \<open>
  C3, as the handlers behave.  A has connected and never joined a room; its offer, answer
  and candidate addressed to B are each delivered to B.
\<close>

theorem relay_unjoined_counterexample:
  "map_of (sockets st_conn) ''A''
     = Some \<lparr>currentRoomId = None, currentUsername = None, sio_rooms = [''A'']\<rparr>
   \<and> step st_conn (''A'', WebrtcOffer ''B'' ''sdp'') = (st_conn, [(''B'', OfferMsg ''A'' ''sdp'')])
   \<and> step st_conn (''A'', WebrtcAnswer ''B'' ''sdp'') = (st_conn, [(''B'', AnswerMsg ''A'' ''sdp'')])
   \<and> step st_conn (''A'', IceCandidate ''B'' ''c1'')
       = (st_conn, [(''B'', IceCandidateMsg ''A'' ''c1'')])"
  unfolding st_conn_eval by (simp add: handler_defs)

text \<open>
  C3, amended.  Whatever the state of the sending session, joined or not, each of the
  three relay operations leaves the server state unchanged and delivers the payload as
  it is, tagged with the sender's identity, to exactly the live connections other than
  the sender that are in the broadcast group named by the target identity.
\<close>

theorem relay_forwards_in_any_state:
  assumes "map_of (sockets st) sid = Some sess"
  shows "fst (step st (sid, WebrtcOffer to x)) = st
       \<and> fst (step st (sid, WebrtcAnswer to x)) = st
       \<and> fst (step st (sid, IceCandidate to x)) = st
       \<and> (\<forall>t m. ((t, m) \<in> set (snd (step st (sid, WebrtcOffer to x)))) =
            (m = OfferMsg sid x \<and> t \<noteq> sid \<and> (\<exists>s. (t, s) \<in> set (sockets st) \<and> to \<in> set (sio_rooms s))))
       \<and> (\<forall>t m. ((t, m) \<in> set (snd (step st (sid, WebrtcAnswer to x)))) =
            (m = AnswerMsg sid x \<and> t \<noteq> sid \<and> (\<exists>s. (t, s) \<in> set (sockets st) \<and> to \<in> set (sio_rooms s))))
       \<and> (\<forall>t m. ((t, m) \<in> set (snd (step st (sid, IceCandidate to x)))) =
            (m = IceCandidateMsg sid x \<and> t \<noteq> sid \<and> (\<exists>s. (t, s) \<in> set (sockets st) \<and> to \<in> set (sio_rooms s))))"
  using assms
  by (simp add: step_def on_webrtc_offer_def on_webrtc_answer_def on_ice_candidate_def socket_to_set)

theorem relay_forwards_in_any_state_witness:
  "fst (step st_AB (''A'', IceCandidate ''B'' ''c1'')) = st_AB
   \<and> (''B'', IceCandidateMsg ''A'' ''c1'') \<in> set (snd (step st_AB (''A'', IceCandidate ''B'' ''c1'')))
   \<and> (''B'', OfferMsg ''A'' ''sdp'') \<in> set (snd (step st_conn (''A'', WebrtcOffer ''B'' ''sdp'')))"
proof -
  let ?sA = "\<lparr>currentRoomId = Some ''R'', currentUsername = Some [97, 108 :: jschar],
                          sio_rooms = [''A'', ''R'']\<rparr>"
  let ?uA = "\<lparr>currentRoomId = None, currentUsername = None, sio_rooms = [''A'']\<rparr>"
  have 1: "map_of (sockets st_AB) ''A'' = Some ?sA" by (simp add: st_AB_eval)
  have 2: "map_of (sockets st_conn) ''A'' = Some ?uA" by (simp add: st_conn_eval)
  have 3: "\<exists>s. (''B'', s) \<in> set (sockets st_AB) \<and> ''B'' \<in> set (sio_rooms s)"
    by (simp add: st_AB_eval)
  have 4: "\<exists>s. (''B'', s) \<in> set (sockets st_conn) \<and> ''B'' \<in> set (sio_rooms s)"
    by (simp add: st_conn_eval)
  have a: "fst (step st_AB (''A'', IceCandidate ''B'' ''c1'')) = st_AB"
    using relay_forwards_in_any_state [OF 1, of "''B''" "''c1''"] by blast
  have b: "(''B'', IceCandidateMsg ''A'' ''c1'')
             \<in> set (snd (step st_AB (''A'', IceCandidate ''B'' ''c1'')))"
    using relay_forwards_in_any_state [OF 1, of "''B''" "''c1''"] 3 by simp
  have c: "(''B'', OfferMsg ''A'' ''sdp'') \<in> set (snd (step st_conn (''A'', WebrtcOffer ''B'' ''sdp'')))"
    using relay_forwards_in_any_state [OF 2, of "''B''" "''sdp''"] 4 by simp
  from a b c show ?thesis by blast
qed

section \<open>Candidates that arrive early\<close>

text \<open>
  C6, as the manager behaves.  No link to B exists yet.  A candidate from B changes
  nothing, and the offer from B that follows creates a link that has been given the offer
  only: the candidate is gone.  Had the offer come first, the link would hold both.
\<close>

theorem early_candidate_counterexample:
  "handleICECandidate mgr0 ''B'' ''cand'' = mgr0
   \<and> handleOffer (handleICECandidate mgr0 ''B'' ''cand'') ''B'' ''offer''
       = mgr0\<lparr>peers := [(''B'', \<lparr>initiator = False, signalled = [OfferSignal ''offer'']\<rparr>)]\<rparr>
   \<and> handleICECandidate (handleOffer mgr0 ''B'' ''offer'') ''B'' ''cand''
       = mgr0\<lparr>peers := [(''B'', \<lparr>initiator = False,
                                  signalled = [OfferSignal ''offer'', CandidateSignal ''cand'']\<rparr>)]\<rparr>"
  by (simp add: mgr0_def handleICECandidate_def handleOffer_def createPeerConnection_def
      peer_signal_def Let_def)

text \<open>
  C6, amended.  A candidate from a remote identity that has a link is handed to that link
  at once, after whatever the link has been given before, whether or not an offer or an
  answer is among it.  A candidate from an identity without a link is dropped: the manager
  is unchanged, and the link that a later offer creates holds that offer alone.
\<close>

theorem candidate_handed_over_or_dropped:
  "(map_of (peers m) sid = Some peer \<longrightarrow>
      map_of (peers (handleICECandidate m sid c)) sid
        = Some (peer\<lparr>signalled := signalled peer @ [CandidateSignal c]\<rparr>))
   \<and> (map_of (peers m) sid = None \<longrightarrow>
        handleICECandidate m sid c = m
        \<and> map_of (peers (handleOffer (handleICECandidate m sid c) sid offer)) sid
            = Some \<lparr>initiator = False, signalled = [OfferSignal offer]\<rparr>)"
  by (simp add: handleICECandidate_def handleOffer_def createPeerConnection_def peer_signal_def
      update_conv' Let_def)

theorem candidate_handed_over_or_dropped_witness:
  "map_of (peers (handleICECandidate mgr1 ''B'' ''c1'')) ''B''
     = Some \<lparr>initiator = True, signalled = [CandidateSignal ''c1'']\<rparr>
   \<and> handleICECandidate mgr1 ''C'' ''c2'' = mgr1
   \<and> map_of (peers (handleOffer (handleICECandidate mgr1 ''C'' ''c2'') ''C'' ''o2'')) ''C''
       = Some \<lparr>initiator = False, signalled = [OfferSignal ''o2'']\<rparr>"
proof -
  have 1: "map_of (peers mgr1) ''B'' = Some \<lparr>initiator = True, signalled = []\<rparr>"
    by (simp add: mgr1_def)
  have 2: "map_of (peers mgr1) ''C'' = None" by (simp add: mgr1_def)
  have a: "map_of (peers (handleICECandidate mgr1 ''B'' ''c1'')) ''B''
     = Some \<lparr>initiator = True, signalled = [CandidateSignal ''c1'']\<rparr>"
    using candidate_handed_over_or_dropped
      [of mgr1 "''B''" "\<lparr>initiator = True, signalled = []\<rparr>" "''c1''"] 1 by simp
  have b: "handleICECandidate mgr1 ''C'' ''c2'' = mgr1
   \<and> map_of (peers (handleOffer (handleICECandidate mgr1 ''C'' ''c2'') ''C'' ''o2'')) ''C''
       = Some \<lparr>initiator = False, signalled = [OfferSignal ''o2'']\<rparr>"
    using candidate_handed_over_or_dropped [of mgr1 "''C''" _ "''c2''" "''o2''"] 2 by blast
  from a b show ?thesis by blast
qed

section \<open>Removing a peer\<close>

lemma remove1_single: "count_list xs x \<le> 1 \<Longrightarrow> x \<notin> set (remove1 x xs)"
  by (induction xs) (auto simp: count_list_0_iff split: if_splits)

lemma delete_absent: "map_of ps k = None \<Longrightarrow> AList.delete k ps = ps"
  by (induction ps) (auto split: if_splits)

lemma removePeer_result:
  "removePeer m sid =
     (m\<lparr>peers := AList.delete sid (peers m),
        audio_elements := remove1 sid (audio_elements m)\<rparr>,
      (if map_of (peers m) sid \<noteq> None then [PeerDestroy sid] else [])
      @ (if sid \<in> set (audio_elements m) then [AudioRemove sid] else [])
      @ (if cb_peerDisconnected m then [PeerDisconnectedCallback sid] else []))"
  by (cases "map_of (peers m) sid")
     (simp_all add: removePeer_def delete_absent remove1_idem)

text \<open>
  C9, as the manager behaves.  With the \<open>peerDisconnected\<close> callback set, removing an
  identity that has no link still invokes the callback; and a second removal of B, after
  the first has destroyed the link and taken out the audio element, invokes it again.
\<close>

theorem removePeer_not_noop_counterexample:
  "map_of (peers mgr0) ''B'' = None
   \<and> removePeer mgr0 ''B'' = (mgr0, [PeerDisconnectedCallback ''B''])
   \<and> removePeer mgr1 ''B''
       = (mgr0, [PeerDestroy ''B'', AudioRemove ''B'', PeerDisconnectedCallback ''B''])"
  by (simp add: mgr0_def mgr1_def removePeer_def)

text \<open>
  C9, amended.  After \<open>removePeer\<close> the identity has no link; a second call leaves the
  map of peers as the first left it and destroys nothing, and a call for an identity
  without a link leaves the map of peers unchanged and destroys nothing.  When the
  document holds at most one audio element for the identity, the second call leaves the
  whole state as the first left it.  Every call, the second one and one for an identity
  without a link included, invokes the \<open>peerDisconnected\<close> callback when it is set.
\<close>

theorem removePeer_twice:
  assumes "removePeer m sid = (m1, e1)" and "removePeer m1 sid = (m2, e2)"
  shows "map_of (peers m1) sid = None
       \<and> peers m2 = peers m1
       \<and> PeerDestroy sid \<notin> set e2
       \<and> (map_of (peers m) sid = None \<longrightarrow> peers m1 = peers m \<and> PeerDestroy sid \<notin> set e1)
       \<and> (count_list (audio_elements m) sid \<le> 1 \<longrightarrow> m2 = m1)
       \<and> (cb_peerDisconnected m \<longrightarrow>
            PeerDisconnectedCallback sid \<in> set e1 \<and> PeerDisconnectedCallback sid \<in> set e2)"
proof -
  have m1: "m1 = m\<lparr>peers := AList.delete sid (peers m),
                   audio_elements := remove1 sid (audio_elements m)\<rparr>"
    and e1: "e1 = (if map_of (peers m) sid \<noteq> None then [PeerDestroy sid] else [])
      @ (if sid \<in> set (audio_elements m) then [AudioRemove sid] else [])
      @ (if cb_peerDisconnected m then [PeerDisconnectedCallback sid] else [])"
    using assms(1) unfolding removePeer_result by simp_all
  have m2: "m2 = m1\<lparr>peers := AList.delete sid (peers m1),
                   audio_elements := remove1 sid (audio_elements m1)\<rparr>"
    and e2: "e2 = (if map_of (peers m1) sid \<noteq> None then [PeerDestroy sid] else [])
      @ (if sid \<in> set (audio_elements m1) then [AudioRemove sid] else [])
      @ (if cb_peerDisconnected m1 then [PeerDisconnectedCallback sid] else [])"
    using assms(2) unfolding removePeer_result by simp_all
  have a: "map_of (peers m1) sid = None" by (simp add: m1 delete_conv')
  have b: "peers m2 = peers m1" using a by (simp add: m2 delete_absent)
  have c: "PeerDestroy sid \<notin> set e2" using a by (simp add: e2)
  have d: "map_of (peers m) sid = None \<longrightarrow> peers m1 = peers m \<and> PeerDestroy sid \<notin> set e1"
    by (simp add: m1 e1 delete_absent)
  have e: "count_list (audio_elements m) sid \<le> 1 \<longrightarrow> m2 = m1"
  proof
    assume "count_list (audio_elements m) sid \<le> 1"
    then have "sid \<notin> set (audio_elements m1)" by (simp add: m1 remove1_single)
    then show "m2 = m1" using b by (simp add: m2 remove1_idem)
  qed
  have f: "cb_peerDisconnected m \<longrightarrow>
            PeerDisconnectedCallback sid \<in> set e1 \<and> PeerDisconnectedCallback sid \<in> set e2"
    by (simp add: e1 e2 m1)
  from a b c d e f show ?thesis by blast
qed

theorem removePeer_twice_witness:
  "peers (fst (removePeer (fst (removePeer mgr1 ''B'')) ''B'')) = peers (fst (removePeer mgr1 ''B''))
   \<and> fst (removePeer (fst (removePeer mgr1 ''B'')) ''B'') = fst (removePeer mgr1 ''B'')
   \<and> PeerDestroy ''B'' \<notin> set (snd (removePeer (fst (removePeer mgr1 ''B'')) ''B''))
   \<and> PeerDisconnectedCallback ''B'' \<in> set (snd (removePeer (fst (removePeer mgr1 ''B'')) ''B''))"
proof -
  let ?m1 = "fst (removePeer mgr1 ''B'')"
  have 1: "removePeer mgr1 ''B'' = (?m1, snd (removePeer mgr1 ''B''))" by simp
  have 2: "removePeer ?m1 ''B'' = (fst (removePeer ?m1 ''B''), snd (removePeer ?m1 ''B''))" by simp
  have 3: "count_list (audio_elements mgr1) ''B'' \<le> 1" by (simp add: mgr1_def)
  have 4: "cb_peerDisconnected mgr1" by (simp add: mgr1_def)
  from removePeer_twice [OF 1 2] 3 4 show ?thesis by blast
qed

section \<open>Voice activity\<close>

lemma checkAudioLevel_shape:
  "\<exists>b h. checkAudioLevel m sid d dataArray =
     (if b \<noteq> isSpeaking d
      then (d\<lparr>volumeHistory := h, isSpeaking := b\<rparr>,
            if cb_speaking m then [SpeakingCallback sid b] else [])
      else (d\<lparr>volumeHistory := h\<rparr>, []))"
  unfolding checkAudioLevel_def Let_def by blast

lemma checkLocalAudioLevel_shape:
  "\<exists>b h mx mn. checkLocalAudioLevel m True muted l dataArray =
     (if (b \<and> \<not> muted) \<noteq> isLocalSpeaking l
      then (l\<lparr>maxVolume := mx, minVolume := mn, localVolumeHistory := h,
              isLocalSpeaking := (b \<and> \<not> muted)\<rparr>,
            if cb_speaking m then [SpeakingCallback ''local'' (b \<and> \<not> muted)] else [])
      else (l\<lparr>maxVolume := mx, minVolume := mn, localVolumeHistory := h\<rparr>, []))"
  unfolding checkLocalAudioLevel_def Let_def by (simp only: not_True_eq_False if_False) blast

lemma checkLocalAudioLevel_no_stream: "checkLocalAudioLevel m False muted l dataArray = (l, [])"
  by (simp add: checkLocalAudioLevel_def)

lemma remote_tick:
  assumes "checkAudioLevel m sid d dataArray = (d', es)"
  shows "es = (if isSpeaking d' \<noteq> isSpeaking d \<and> cb_speaking m
            then [SpeakingCallback sid (isSpeaking d')] else [])"
proof -
  from checkAudioLevel_shape [of m sid d dataArray] obtain b h where
    "checkAudioLevel m sid d dataArray =
     (if b \<noteq> isSpeaking d
      then (d\<lparr>volumeHistory := h, isSpeaking := b\<rparr>,
            if cb_speaking m then [SpeakingCallback sid b] else [])
      else (d\<lparr>volumeHistory := h\<rparr>, []))" by blast
  with assms show ?thesis by (cases "b = isSpeaking d") auto
qed

lemma local_tick:
  assumes "checkLocalAudioLevel m hasStream muted l dataArray = (l', es)"
  shows "es = (if isLocalSpeaking l' \<noteq> isLocalSpeaking l \<and> cb_speaking m
             then [SpeakingCallback ''local'' (isLocalSpeaking l')] else [])
         \<and> (hasStream \<and> muted \<longrightarrow> \<not> isLocalSpeaking l')"
proof (cases hasStream)
  case False
  with assms show ?thesis by (simp add: checkLocalAudioLevel_no_stream)
next
  case True
  from checkLocalAudioLevel_shape [of m muted l dataArray] obtain b h mx mn where
    "checkLocalAudioLevel m True muted l dataArray =
     (if (b \<and> \<not> muted) \<noteq> isLocalSpeaking l
      then (l\<lparr>maxVolume := mx, minVolume := mn, localVolumeHistory := h,
              isLocalSpeaking := (b \<and> \<not> muted)\<rparr>,
            if cb_speaking m then [SpeakingCallback ''local'' (b \<and> \<not> muted)] else [])
      else (l\<lparr>maxVolume := mx, minVolume := mn, localVolumeHistory := h\<rparr>, []))" by blast
  with assms True show ?thesis by (cases "(b \<and> \<not> muted) = isLocalSpeaking l") auto
qed

text \<open>
  C8.  A tick of either sampling loop invokes the \<open>speaking\<close> callback only if the
  speaking flag after the tick differs from the flag before it, and then once, with the
  new flag; a tick that leaves the flag as it was emits nothing.  A tick of the local
  loop with the mute flag set leaves the local speaking flag false, whatever the samples.
\<close>

theorem speaking_event_only_on_change:
  "(checkAudioLevel m sid d dataArray = (d', es) \<longrightarrow>
      es = (if isSpeaking d' \<noteq> isSpeaking d \<and> cb_speaking m
            then [SpeakingCallback sid (isSpeaking d')] else []))
   \<and> (checkLocalAudioLevel m hasStream muted l dataArray = (l', es') \<longrightarrow>
      es' = (if isLocalSpeaking l' \<noteq> isLocalSpeaking l \<and> cb_speaking m
             then [SpeakingCallback ''local'' (isLocalSpeaking l')] else []))
   \<and> (hasStream \<and> muted \<and> checkLocalAudioLevel m hasStream muted l dataArray = (l', es')
        \<longrightarrow> \<not> isLocalSpeaking l')"
  using remote_tick [of m sid d dataArray d' es] local_tick [of m hasStream muted l dataArray l' es']
  by blast

theorem speaking_event_only_on_change_witness:
  "checkAudioLevel mgr0 ''B'' \<lparr>isSpeaking = False, volumeHistory = [0, 0, 0]\<rparr> [0, 0]
     = (\<lparr>isSpeaking = True, volumeHistory = [0, 0, 0, 255]\<rparr>, [SpeakingCallback ''B'' True])
   \<and> snd (checkAudioLevel mgr0 ''B'' \<lparr>isSpeaking = True, volumeHistory = [0, 0, 0, 255]\<rparr> [0, 0]) = []
   \<and> \<not> isLocalSpeaking (fst (checkLocalAudioLevel mgr0 True True
         \<lparr>isLocalSpeaking = True, maxVolume = 255, minVolume = 1,
          localVolumeHistory = [0, 0, 0, 255]\<rparr> [0, 0]))
   \<and> snd (checkLocalAudioLevel mgr0 True True
         \<lparr>isLocalSpeaking = True, maxVolume = 255, minVolume = 1,
          localVolumeHistory = [0, 0, 0, 255]\<rparr> [0, 0]) = [SpeakingCallback ''local'' False]"
proof -
  let ?d0 = "\<lparr>isSpeaking = False, volumeHistory = [0, 0, 0]\<rparr>"
  let ?d1 = "\<lparr>isSpeaking = True, volumeHistory = [0, 0, 0, 255]\<rparr>"
  let ?d2 = "\<lparr>isSpeaking = True, volumeHistory = [0, 0, 0, 255, 255]\<rparr>"
  let ?l = "\<lparr>isLocalSpeaking = True, maxVolume = 255, minVolume = 1,
          localVolumeHistory = [0, 0, 0, 255]\<rparr>"
  let ?loud = "[0, 0] :: 8 word list"
  have v: "rms_volume ?loud = 255"
    by (simp add: rms_volume_def)
  have h1: "push_history 50 [0, 0, 0] 255 = [0, 0, 0, 255]"
    by (simp add: push_history_def Let_def)
  have h2: "push_history 50 [0, 0, 0, 255] 255 = [0, 0, 0, 255, 255]"
    by (simp add: push_history_def Let_def)
  have t1: "speech_threshold [0, 0, 0, 255] = 765 / 8"
    by (simp add: speech_threshold_def)
  have t2: "speech_threshold [0, 0, 0, 255, 255] = 153"
    by (simp add: speech_threshold_def)
  have e1: "fst (checkAudioLevel mgr0 ''B'' ?d0 ?loud) = ?d1"
    by (simp add: checkAudioLevel_def v h1 t1 Let_def)
  have e2: "fst (checkAudioLevel mgr0 ''B'' ?d1 ?loud) = ?d2"
    by (simp add: checkAudioLevel_def v h2 t2 Let_def)
  have cb: "cb_speaking mgr0" by (simp add: mgr0_def)
  have a: "snd (checkAudioLevel mgr0 ''B'' ?d0 ?loud) = [SpeakingCallback ''B'' True]"
    using speaking_event_only_on_change
      [where m = mgr0 and sid = "''B''" and d = ?d0 and dataArray = ?loud and d' = ?d1
         and es = "snd (checkAudioLevel mgr0 ''B'' ?d0 ?loud)"] e1 cb
    by (simp add: prod_eq_iff)
  have b: "snd (checkAudioLevel mgr0 ''B'' ?d1 ?loud) = []"
    using speaking_event_only_on_change
      [where m = mgr0 and sid = "''B''" and d = ?d1 and dataArray = ?loud and d' = ?d2
         and es = "snd (checkAudioLevel mgr0 ''B'' ?d1 ?loud)"] e2
    by (simp add: prod_eq_iff)
  let ?r = "checkLocalAudioLevel mgr0 True True ?l ?loud"
  have c: "\<not> isLocalSpeaking (fst ?r)"
    using speaking_event_only_on_change
      [where m = mgr0 and hasStream = True and muted = True and l = ?l and dataArray = ?loud
         and l' = "fst ?r" and es' = "snd ?r"]
    by simp
  have d: "snd ?r = [SpeakingCallback ''local'' False]"
    using speaking_event_only_on_change
      [where m = mgr0 and hasStream = True and muted = True and l = ?l and dataArray = ?loud
         and l' = "fst ?r" and es' = "snd ?r"] c cb
    by simp
  from a b c d e1 show ?thesis by (simp add: prod_eq_iff)
qed

end
